theory Spec2Isabelle
  imports Main
begin

section \<open>Domain model\<close>

text \<open>
  The scan lifecycle engine of the orchestrator, embedded function by function.
  A UUID is a 128-bit value, here a natural number (\<open>0\<close> is the zero UUID that Go gives an
  unset \<open>uuid.UUID\<close>); an instant is a number of seconds. \<open>ScanStatus\<close>, \<open>ScanType\<close> and
  \<open>Severity\<close> are string types in \<open>internal/domain\<close> and stay strings here.
\<close>

type_synonym uuid = nat
type_synonym time = int
type_synonym ScanStatus = string
type_synonym ScanType = string
type_synonym Severity = string

definition ScanStatusQueued :: ScanStatus where "ScanStatusQueued = ''queued''"
definition ScanStatusRunning :: ScanStatus where "ScanStatusRunning = ''running''"
definition ScanStatusCompleted :: ScanStatus where "ScanStatusCompleted = ''completed''"
definition ScanStatusFailed :: ScanStatus where "ScanStatusFailed = ''failed''"
definition ScanStatusCancelled :: ScanStatus where "ScanStatusCancelled = ''cancelled''"

definition ScanTypeSAST :: ScanType where "ScanTypeSAST = ''sast''"
definition ScanTypeSCA :: ScanType where "ScanTypeSCA = ''sca''"
definition ScanTypeSecrets :: ScanType where "ScanTypeSecrets = ''secrets''"
definition ScanTypeLicense :: ScanType where "ScanTypeLicense = ''license''"

definition SeverityCritical :: Severity where "SeverityCritical = ''critical''"
definition SeverityHigh :: Severity where "SeverityHigh = ''high''"
definition SeverityMedium :: Severity where "SeverityMedium = ''medium''"
definition SeverityLow :: Severity where "SeverityLow = ''low''"

text \<open>
  \<open>domain.Scan\<close>. The repository, the request handlers and the dispatcher use the nullable
  columns (\<open>repository_url\<close>, \<open>branch\<close>, \<open>commit_sha\<close>, \<open>source_archive_key\<close>, \<open>job_name\<close>,
  \<open>job_namespace\<close>, \<open>error_message\<close>) through \<open>*string\<close>, so these fields are options;
  \<open>None\<close> is the nil pointer and the SQL NULL.
\<close>

record Scan =
  ID :: uuid
  OrganizationID :: uuid
  ProjectID :: uuid
  UserID :: uuid
  Status :: ScanStatus
  ScanTypes :: "ScanType list"
  RepositoryURL :: "string option"
  Branch :: "string option"
  CommitSHA :: "string option"
  SourceArchiveKey :: "string option"
  JobName :: "string option"
  JobNamespace :: "string option"
  FindingsCount :: int
  CriticalCount :: int
  HighCount :: int
  MediumCount :: int
  LowCount :: int
  StartedAt :: "time option"
  CompletedAt :: "time option"
  ErrorMessage :: "string option"
  CreatedAt :: time
  UpdatedAt :: time

text \<open>\<open>Scan.IsTerminal\<close>.\<close>

definition IsTerminal :: "Scan \<Rightarrow> bool" where
  "IsTerminal s \<longleftrightarrow>
     Status s = ScanStatusCompleted \<or> Status s = ScanStatusFailed \<or> Status s = ScanStatusCancelled"

text \<open>
  \<open>domain.Finding\<close>, restricted to the thirteen columns that \<open>FindingRepository.CreateBatch\<close>
  writes and \<open>FindingRepository.List\<close> reads back.
\<close>

record Finding =
  FindingID :: uuid
  ScanID :: uuid
  FindingScanType :: ScanType
  ToolName :: string
  Title :: string
  Description :: string
  FindingSeverity :: Severity
  FilePath :: string
  StartLine :: int
  CodeSnippet :: string
  CWEID :: string
  CVEID :: string
  FindingCreatedAt :: time

text \<open>\<open>stringPtr\<close> and \<open>stringValue\<close> of \<open>internal/grpc/service.go\<close>.\<close>

definition stringPtr :: "string \<Rightarrow> string option" where
  "stringPtr s = (if s = '''' then None else Some s)"

definition stringValue :: "string option \<Rightarrow> string" where
  "stringValue s = (case s of None \<Rightarrow> '''' | Some v \<Rightarrow> v)"

text \<open>The recurring test \<open>p != nil && *p != ""\<close>.\<close>

definition nonEmpty :: "string option \<Rightarrow> bool" where
  "nonEmpty p = (case p of None \<Rightarrow> False | Some v \<Rightarrow> v \<noteq> '''')"

section \<open>Interfaces\<close>

text \<open>\<open>interfaces.ScanFilter\<close>.\<close>

record ScanFilter =
  flt_OrganizationID :: "uuid option"
  flt_ProjectID :: "uuid option"
  flt_UserID :: "uuid option"
  flt_Status :: "ScanStatus option"
  flt_ScanTypes :: "ScanType list"
  CreatedBefore :: "time option"
  Limit :: int
  Offset :: int
  PageSize :: int

text \<open>The zero value of the filter, which a Go composite literal starts from.\<close>

definition ScanFilter0 :: ScanFilter where
  "ScanFilter0 = \<lparr>flt_OrganizationID = None, flt_ProjectID = None, flt_UserID = None,
     flt_Status = None, flt_ScanTypes = [], CreatedBefore = None, Limit = 0, Offset = 0,
     PageSize = 0\<rparr>"

text \<open>\<open>interfaces.JobCondition\<close>, \<open>interfaces.JobStatus\<close>, and the two fields of
  \<open>batchv1.Job\<close> that the dispatcher reads.\<close>

record JobCondition =
  cond_Type :: string
  cond_Status :: string
  Reason :: string
  Message :: string

record JobStatus =
  Name :: string
  Namespace :: string
  Active :: int
  Succeeded :: int
  Failed :: int
  StartTime :: "string option"
  CompletionTime :: "string option"
  Conditions :: "JobCondition list"
  PodName :: string

record Job =
  job_Name :: string
  job_Namespace :: string

text \<open>
  The statements the repositories send to the database, with the arguments that reach the
  driver. The list query carries the four optional equality filters and the limit and
  offset, present only when positive, because the query text is built from exactly these.
\<close>

datatype db_op =
    QCreate uuid
  | QGet uuid
  | QUpdate uuid
  | QList "uuid option" "uuid option" "uuid option" "ScanStatus option" "int option" "int option"
  | QDelete uuid
  | QUpdateStatus uuid ScanStatus
  | QCreateBatch "uuid list"
  | QDeleteByScanID uuid

text \<open>
  Requests that leave the process: the workload manager (\<open>interfaces.JobDispatcher\<close>) and the
  blob service (\<open>interfaces.StorageClient\<close>). The world keeps them in the order they were sent.
\<close>

datatype call =
    CreateJobCall Scan
  | GetJobStatusCall string string
  | GetJobLogsCall string string
  | CancelJobCall string string
  | DeleteJobCall string string
  | DeleteArtifactsCall "string list"

text \<open>
  What the process does not control: the clock, the database driver (\<open>db_fault\<close> gives the
  error the driver returns for a statement, if any), the workload manager, the blob service
  and the UUID library. An error is its message; \<open>None\<close> is Go's nil error. One value of
  this record describes the surroundings during one operation (one request or one tick):
  every reading of the clock gives the same instant, and a collaborator answers the same
  request in the same way.
\<close>

record env =
  now :: time
  db_fault :: "db_op \<Rightarrow> string option"
  CreateJob :: "Scan \<Rightarrow> string + Job"
  GetJobStatus :: "string \<Rightarrow> string \<Rightarrow> string + JobStatus"
  GetJobLogs :: "string \<Rightarrow> string \<Rightarrow> string + string"
  CancelJob :: "string \<Rightarrow> string \<Rightarrow> string option"
  DeleteJob :: "string \<Rightarrow> string \<Rightarrow> string option"
  DeleteArtifacts :: "string list \<Rightarrow> string option"
  uuid_Parse :: "string \<Rightarrow> string + uuid"
  uuid_New :: "nat \<Rightarrow> uuid"

text \<open>
  The two tables in storage order, the requests sent so far, and how many UUIDs the process
  has drawn: the \<open>n\<close>-th call of \<open>uuid.New()\<close> returns \<open>uuid_New e n\<close>.
\<close>

record world =
  scans :: "Scan list"
  findings :: "Finding list"
  calls :: "call list"
  drawn :: nat

definition send :: "call \<Rightarrow> world \<Rightarrow> world" where
  "send c w = w\<lparr>calls := calls w @ [c]\<rparr>"

text \<open>The methods of the two clients: the request is recorded, the answer is the environment's.\<close>

definition JobDispatcher_CreateJob :: "env \<Rightarrow> Scan \<Rightarrow> world \<Rightarrow> (string + Job) \<times> world" where
  "JobDispatcher_CreateJob e scan w = (CreateJob e scan, send (CreateJobCall scan) w)"

definition JobDispatcher_GetJobStatus ::
  "env \<Rightarrow> string \<Rightarrow> string \<Rightarrow> world \<Rightarrow> (string + JobStatus) \<times> world" where
  "JobDispatcher_GetJobStatus e namespace name w =
     (GetJobStatus e namespace name, send (GetJobStatusCall namespace name) w)"

definition JobDispatcher_GetJobLogs ::
  "env \<Rightarrow> string \<Rightarrow> string \<Rightarrow> world \<Rightarrow> (string + string) \<times> world" where
  "JobDispatcher_GetJobLogs e namespace name w =
     (GetJobLogs e namespace name, send (GetJobLogsCall namespace name) w)"

definition JobDispatcher_CancelJob ::
  "env \<Rightarrow> string \<Rightarrow> string \<Rightarrow> world \<Rightarrow> string option \<times> world" where
  "JobDispatcher_CancelJob e namespace name w =
     (CancelJob e namespace name, send (CancelJobCall namespace name) w)"

definition JobDispatcher_DeleteJob ::
  "env \<Rightarrow> string \<Rightarrow> string \<Rightarrow> world \<Rightarrow> string option \<times> world" where
  "JobDispatcher_DeleteJob e namespace name w =
     (DeleteJob e namespace name, send (DeleteJobCall namespace name) w)"

definition StorageClient_DeleteArtifacts ::
  "env \<Rightarrow> string list \<Rightarrow> world \<Rightarrow> string option \<times> world" where
  "StorageClient_DeleteArtifacts e artifactIDs w =
     (DeleteArtifacts e artifactIDs, send (DeleteArtifactsCall artifactIDs) w)"

section \<open>Scan repository\<close>

text \<open>
  \<open>ScanRepository.Create\<close>: one INSERT of fourteen columns. The result columns are not among
  them, so the new row has the column defaults: counters 0, \<open>started_at\<close>, \<open>completed_at\<close>
  and \<open>error_message\<close> NULL.
\<close>

definition inserted_row :: "Scan \<Rightarrow> Scan" where
  "inserted_row scan = scan\<lparr>FindingsCount := 0, CriticalCount := 0, HighCount := 0,
     MediumCount := 0, LowCount := 0, StartedAt := None, CompletedAt := None,
     ErrorMessage := None\<rparr>"

definition ScanRepository_Create :: "env \<Rightarrow> Scan \<Rightarrow> world \<Rightarrow> string option \<times> world" where
  "ScanRepository_Create e scan w =
     (case db_fault e (QCreate (ID scan)) of
        Some err \<Rightarrow> (Some (''failed to create scan: '' @ err), w)
      | None \<Rightarrow> (None, w\<lparr>scans := scans w @ [inserted_row scan]\<rparr>))"

text \<open>\<open>ScanRepository.Get\<close>: the first row with the id, \<open>sql.ErrNoRows\<close> when there is none.\<close>

definition ScanRepository_Get :: "env \<Rightarrow> uuid \<Rightarrow> world \<Rightarrow> string + Scan" where
  "ScanRepository_Get e sid w =
     (case db_fault e (QGet sid) of
        Some err \<Rightarrow> Inl (''failed to get scan: '' @ err)
      | None \<Rightarrow>
          (case find (\<lambda>r. ID r = sid) (scans w) of
             None \<Rightarrow> Inl ''scan not found''
           | Some r \<Rightarrow> Inr r))"

text \<open>
  \<open>ScanRepository.Update\<close>: the UPDATE sets \<open>status\<close>, \<open>job_name\<close>, the five counters,
  \<open>started_at\<close>, \<open>completed_at\<close>, \<open>error_message\<close> and \<open>updated_at\<close> (the clock) on the rows
  with the scan's id, and no other column. No row affected is the error "scan not found".
\<close>

definition updated_row :: "time \<Rightarrow> Scan \<Rightarrow> Scan \<Rightarrow> Scan" where
  "updated_row t scan r = r\<lparr>Status := Status scan, JobName := JobName scan,
     FindingsCount := FindingsCount scan, CriticalCount := CriticalCount scan,
     HighCount := HighCount scan, MediumCount := MediumCount scan, LowCount := LowCount scan,
     StartedAt := StartedAt scan, CompletedAt := CompletedAt scan,
     ErrorMessage := ErrorMessage scan, UpdatedAt := t\<rparr>"

definition ScanRepository_Update :: "env \<Rightarrow> Scan \<Rightarrow> world \<Rightarrow> string option \<times> world" where
  "ScanRepository_Update e scan w =
     (case db_fault e (QUpdate (ID scan)) of
        Some err \<Rightarrow> (Some (''failed to update scan: '' @ err), w)
      | None \<Rightarrow>
          if filter (\<lambda>r. ID r = ID scan) (scans w) = [] then (Some ''scan not found'', w)
          else (None, w\<lparr>scans :=
                  map (\<lambda>r. if ID r = ID scan then updated_row (now e) scan r else r) (scans w)\<rparr>))"

text \<open>
  \<open>ScanRepository.List\<close>. The WHERE clause has a conjunct for each of \<open>OrganizationID\<close>,
  \<open>ProjectID\<close>, \<open>UserID\<close> and \<open>Status\<close> that is set, and for nothing else; then
  \<open>ORDER BY created_at DESC\<close>; then LIMIT and OFFSET when positive. Rows with equal
  \<open>created_at\<close> keep their storage order (SQL leaves their order open).
\<close>

definition matches :: "ScanFilter \<Rightarrow> Scan \<Rightarrow> bool" where
  "matches f r \<longleftrightarrow>
     (case flt_OrganizationID f of None \<Rightarrow> True | Some v \<Rightarrow> OrganizationID r = v) \<and>
     (case flt_ProjectID f of None \<Rightarrow> True | Some v \<Rightarrow> ProjectID r = v) \<and>
     (case flt_UserID f of None \<Rightarrow> True | Some v \<Rightarrow> UserID r = v) \<and>
     (case flt_Status f of None \<Rightarrow> True | Some v \<Rightarrow> Status r = v)"

definition order_by_created_at_desc :: "Scan list \<Rightarrow> Scan list" where
  "order_by_created_at_desc rs = sort_key (\<lambda>r. - CreatedAt r) rs"

definition positive :: "int \<Rightarrow> int option" where
  "positive n = (if n > 0 then Some n else None)"

definition list_query :: "ScanFilter \<Rightarrow> db_op" where
  "list_query f = QList (flt_OrganizationID f) (flt_ProjectID f) (flt_UserID f) (flt_Status f)
     (positive (Limit f)) (positive (Offset f))"

definition limit_offset :: "ScanFilter \<Rightarrow> Scan list \<Rightarrow> Scan list" where
  "limit_offset f rs =
     (let rs1 = (if Offset f > 0 then drop (nat (Offset f)) rs else rs)
      in if Limit f > 0 then take (nat (Limit f)) rs1 else rs1)"

definition ScanRepository_List :: "env \<Rightarrow> ScanFilter \<Rightarrow> world \<Rightarrow> string + Scan list" where
  "ScanRepository_List e f w =
     (case db_fault e (list_query f) of
        Some err \<Rightarrow> Inl (''failed to list scans: '' @ err)
      | None \<Rightarrow> Inr (limit_offset f (order_by_created_at_desc (filter (matches f) (scans w)))))"

text \<open>
  \<open>ScanRepository.UpdateStatus\<close> and \<open>ScanRepository.Delete\<close> run the same statement,
  \<open>UPDATE scans SET status = $2, updated_at = $3 WHERE id = $1\<close>; \<open>Delete\<close> passes
  \<open>ScanStatusCancelled\<close> (a soft delete, as its comment says): no row leaves the table.
\<close>

definition set_status :: "time \<Rightarrow> uuid \<Rightarrow> ScanStatus \<Rightarrow> Scan list \<Rightarrow> Scan list" where
  "set_status t sid st rs =
     map (\<lambda>r. if ID r = sid then r\<lparr>Status := st, UpdatedAt := t\<rparr> else r) rs"

definition ScanRepository_Delete :: "env \<Rightarrow> uuid \<Rightarrow> world \<Rightarrow> string option \<times> world" where
  "ScanRepository_Delete e sid w =
     (case db_fault e (QDelete sid) of
        Some err \<Rightarrow> (Some (''failed to delete scan: '' @ err), w)
      | None \<Rightarrow>
          if filter (\<lambda>r. ID r = sid) (scans w) = [] then (Some ''scan not found'', w)
          else (None, w\<lparr>scans := set_status (now e) sid ScanStatusCancelled (scans w)\<rparr>))"

definition ScanRepository_UpdateStatus ::
  "env \<Rightarrow> uuid \<Rightarrow> ScanStatus \<Rightarrow> world \<Rightarrow> string option \<times> world" where
  "ScanRepository_UpdateStatus e sid st w =
     (case db_fault e (QUpdateStatus sid st) of
        Some err \<Rightarrow> (Some (''failed to update scan status: '' @ err), w)
      | None \<Rightarrow>
          if filter (\<lambda>r. ID r = sid) (scans w) = [] then (Some ''scan not found'', w)
          else (None, w\<lparr>scans := set_status (now e) sid st (scans w)\<rparr>))"

section \<open>Finding repository\<close>

text \<open>
  The sources hold the finding repository twice: once with every method a stub that logs
  and returns nil, once implemented. The implemented one is embedded.

  \<open>FindingRepository.CreateBatch\<close>: nothing is sent for an empty batch; otherwise all rows
  go in one INSERT statement, which the database executes or rejects as a whole.
  \<open>created_at\<close> is the clock.
\<close>

definition FindingRepository_CreateBatch ::
  "env \<Rightarrow> Finding list \<Rightarrow> world \<Rightarrow> string option \<times> world" where
  "FindingRepository_CreateBatch e fs w =
     (if length fs = 0 then (None, w)
      else
        (case db_fault e (QCreateBatch (map FindingID fs)) of
           Some err \<Rightarrow> (Some (''failed to create findings: '' @ err), w)
         | None \<Rightarrow>
             (None, w\<lparr>findings := findings w @ map (\<lambda>f. f\<lparr>FindingCreatedAt := now e\<rparr>) fs\<rparr>)))"

text \<open>\<open>FindingRepository.DeleteByScanID\<close>: \<open>DELETE FROM findings WHERE scan_id = $1\<close>.\<close>

definition FindingRepository_DeleteByScanID ::
  "env \<Rightarrow> uuid \<Rightarrow> world \<Rightarrow> string option \<times> world" where
  "FindingRepository_DeleteByScanID e scanID w =
     (case db_fault e (QDeleteByScanID scanID) of
        Some err \<Rightarrow> (Some (''failed to delete findings: '' @ err), w)
      | None \<Rightarrow> (None, w\<lparr>findings := filter (\<lambda>f. ScanID f \<noteq> scanID) (findings w)\<rparr>))"

section \<open>Request API\<close>

text \<open>
  The messages of the generated protocol package, with the fields the handlers read. The
  enumerations list the values the conversion functions name; \<open>Id\<close> of the cancel and delete
  requests is passed as a string.
\<close>

datatype pb_ScanType = SCAN_TYPE_UNSPECIFIED | SAST | SCA | SECRETS | LICENSE
datatype pb_ScanStatus =
  SCAN_STATUS_UNSPECIFIED | QUEUED | RUNNING | COMPLETED | FAILED | CANCELLED
datatype pb_Severity = SEVERITY_UNSPECIFIED | CRITICAL | HIGH | MEDIUM | LOW

datatype codes = InvalidArgument | NotFound | FailedPrecondition | Internal

type_synonym status_error = "codes \<times> string"

record CreateScanRequest =
  cs_OrganizationId :: string
  cs_ProjectId :: string
  cs_UserId :: string
  cs_ScanTypes :: "pb_ScanType list"
  cs_GitUrl :: string
  cs_GitBranch :: string
  cs_GitCommit :: string
  cs_SourceArtifactId :: string

record ListScansRequest =
  ls_OrganizationId :: string
  ls_ProjectId :: string
  ls_Status :: pb_ScanStatus
  ls_PageSize :: int

record pb_Finding =
  pf_ScanType :: pb_ScanType
  pf_Severity :: pb_Severity
  pf_Title :: string
  pf_Description :: string
  pf_FilePath :: string
  pf_LineNumber :: int
  pf_CodeSnippet :: string
  pf_CveId :: string
  pf_CweId :: string

record CreateFindingsRequest =
  cf_ScanId :: string
  cf_Findings :: "pb_Finding list"

fun convertScanTypeFromProto :: "pb_ScanType \<Rightarrow> ScanType" where
  "convertScanTypeFromProto SAST = ScanTypeSAST"
| "convertScanTypeFromProto SCA = ScanTypeSCA"
| "convertScanTypeFromProto SECRETS = ScanTypeSecrets"
| "convertScanTypeFromProto LICENSE = ScanTypeLicense"
| "convertScanTypeFromProto SCAN_TYPE_UNSPECIFIED = ''''"

fun convertScanStatusFromProto :: "pb_ScanStatus \<Rightarrow> ScanStatus" where
  "convertScanStatusFromProto QUEUED = ScanStatusQueued"
| "convertScanStatusFromProto RUNNING = ScanStatusRunning"
| "convertScanStatusFromProto COMPLETED = ScanStatusCompleted"
| "convertScanStatusFromProto FAILED = ScanStatusFailed"
| "convertScanStatusFromProto CANCELLED = ScanStatusCancelled"
| "convertScanStatusFromProto SCAN_STATUS_UNSPECIFIED = ''''"

definition convertScanStatusToProto :: "ScanStatus \<Rightarrow> pb_ScanStatus" where
  "convertScanStatusToProto st =
     (if st = ScanStatusQueued then QUEUED
      else if st = ScanStatusRunning then RUNNING
      else if st = ScanStatusCompleted then COMPLETED
      else if st = ScanStatusFailed then FAILED
      else if st = ScanStatusCancelled then CANCELLED
      else SCAN_STATUS_UNSPECIFIED)"

fun convertSeverityFromProto :: "pb_Severity \<Rightarrow> Severity" where
  "convertSeverityFromProto CRITICAL = SeverityCritical"
| "convertSeverityFromProto HIGH = SeverityHigh"
| "convertSeverityFromProto MEDIUM = SeverityMedium"
| "convertSeverityFromProto LOW = SeverityLow"
| "convertSeverityFromProto SEVERITY_UNSPECIFIED = ''''"

definition deriveToolName :: "ScanType \<Rightarrow> string" where
  "deriveToolName scanType =
     (if scanType = ScanTypeSAST then ''semgrep''
      else if scanType = ScanTypeSCA then ''trivy''
      else if scanType = ScanTypeSecrets then ''gitleaks''
      else if scanType = ScanTypeLicense then ''trivy''
      else ''unknown'')"

definition convertFindingFromProto :: "uuid \<Rightarrow> pb_Finding \<Rightarrow> uuid \<Rightarrow> Finding" where
  "convertFindingFromProto new protoFinding scanID =
     (let scanType = convertScanTypeFromProto (pf_ScanType protoFinding);
          toolName = deriveToolName scanType
      in \<lparr>FindingID = new, ScanID = scanID, FindingScanType = scanType, ToolName = toolName,
          Title = pf_Title protoFinding, Description = pf_Description protoFinding,
          FindingSeverity = convertSeverityFromProto (pf_Severity protoFinding),
          FilePath = pf_FilePath protoFinding, StartLine = pf_LineNumber protoFinding,
          CodeSnippet = pf_CodeSnippet protoFinding, CWEID = pf_CweId protoFinding,
          CVEID = pf_CveId protoFinding, FindingCreatedAt = 0\<rparr>)"

text \<open>
  \<open>ScanServiceServer.CreateScan\<close>. The response message is \<open>convertScanToProto\<close> of the scan
  built here; the embedding returns that scan, and \<open>convertScanStatusToProto\<close> of its status
  is the status field of the message.
\<close>

definition ScanServiceServer_CreateScan ::
  "env \<Rightarrow> CreateScanRequest \<Rightarrow> world \<Rightarrow> (status_error + Scan) \<times> world" where
  "ScanServiceServer_CreateScan e req w =
     (if cs_OrganizationId req = '''' then
        (Inl (InvalidArgument, ''organization_id is required''), w)
      else if cs_ProjectId req = '''' then
        (Inl (InvalidArgument, ''project_id is required''), w)
      else if length (cs_ScanTypes req) = 0 then
        (Inl (InvalidArgument, ''at least one scan_type is required''), w)
      else if cs_GitUrl req = '''' \<and> cs_SourceArtifactId req = '''' then
        (Inl (InvalidArgument, ''either git_url or source_artifact_id is required''), w)
      else
        (case uuid_Parse e (cs_OrganizationId req) of
           Inl err \<Rightarrow> (Inl (InvalidArgument, ''invalid organization_id: '' @ err), w)
         | Inr orgID \<Rightarrow>
        (case uuid_Parse e (cs_ProjectId req) of
           Inl err \<Rightarrow> (Inl (InvalidArgument, ''invalid project_id: '' @ err), w)
         | Inr projectID \<Rightarrow>
        (case (if cs_UserId req \<noteq> '''' then uuid_Parse e (cs_UserId req) else Inr 0) of
           Inl err \<Rightarrow> (Inl (InvalidArgument, ''invalid user_id: '' @ err), w)
         | Inr userID \<Rightarrow>
             (let scanTypes = map convertScanTypeFromProto (cs_ScanTypes req);
                  scan = \<lparr>ID = uuid_New e (drawn w), OrganizationID = orgID,
                    ProjectID = projectID, UserID = userID, Status = ScanStatusQueued,
                    ScanTypes = scanTypes, RepositoryURL = stringPtr (cs_GitUrl req),
                    Branch = stringPtr (cs_GitBranch req),
                    CommitSHA = stringPtr (cs_GitCommit req),
                    SourceArchiveKey = stringPtr (cs_SourceArtifactId req),
                    JobName = None, JobNamespace = None, FindingsCount = 0,
                    CriticalCount = 0, HighCount = 0, MediumCount = 0, LowCount = 0,
                    StartedAt = None, CompletedAt = None, ErrorMessage = None,
                    CreatedAt = now e, UpdatedAt = now e\<rparr>;
                  w1 = w\<lparr>drawn := Suc (drawn w)\<rparr>
              in (case ScanRepository_Create e scan w1 of
                    (Some err, w2) \<Rightarrow> (Inl (Internal, ''failed to create scan: '' @ err), w2)
                  | (None, w2) \<Rightarrow> (Inr scan, w2)))))))"

text \<open>
  \<open>ScanServiceServer.ListScans\<close>. The filter starts as \<open>ScanFilter{PageSize: ...}\<close>; the
  handler then sets \<open>OrganizationID\<close>, \<open>ProjectID\<close> and \<open>Status\<close>, and nothing else. The
  response holds the proto conversion of each scan returned here, in this order.
\<close>

definition ScanServiceServer_ListScans ::
  "env \<Rightarrow> ListScansRequest \<Rightarrow> world \<Rightarrow> status_error + Scan list" where
  "ScanServiceServer_ListScans e req w =
     (let filter0 = ScanFilter0\<lparr>PageSize := ls_PageSize req\<rparr>
      in case (if ls_OrganizationId req \<noteq> '''' then
                 (case uuid_Parse e (ls_OrganizationId req) of
                    Inl err \<Rightarrow> Inl (InvalidArgument, ''invalid organization_id: '' @ err)
                  | Inr orgID \<Rightarrow> Inr (filter0\<lparr>flt_OrganizationID := Some orgID\<rparr>))
               else Inr filter0) of
           Inl err \<Rightarrow> Inl err
         | Inr filter1 \<Rightarrow>
        (case (if ls_ProjectId req \<noteq> '''' then
                 (case uuid_Parse e (ls_ProjectId req) of
                    Inl err \<Rightarrow> Inl (InvalidArgument, ''invalid project_id: '' @ err)
                  | Inr projectID \<Rightarrow> Inr (filter1\<lparr>flt_ProjectID := Some projectID\<rparr>))
               else Inr filter1) of
           Inl err \<Rightarrow> Inl err
         | Inr filter2 \<Rightarrow>
             (let filter3 =
                    (if ls_Status req \<noteq> SCAN_STATUS_UNSPECIFIED
                     then filter2\<lparr>flt_Status := Some (convertScanStatusFromProto (ls_Status req))\<rparr>
                     else filter2)
              in case ScanRepository_List e filter3 w of
                   Inl err \<Rightarrow> Inl (Internal, ''failed to list scans: '' @ err)
                 | Inr rs \<Rightarrow> Inr rs)))"

text \<open>\<open>ScanServiceServer.CancelScan\<close>. A failure of \<open>CancelJob\<close> is logged only.\<close>

definition ScanServiceServer_CancelScan ::
  "env \<Rightarrow> string \<Rightarrow> world \<Rightarrow> (status_error + unit) \<times> world" where
  "ScanServiceServer_CancelScan e req_Id w =
     (case uuid_Parse e req_Id of
        Inl err \<Rightarrow> (Inl (InvalidArgument, ''invalid scan_id: '' @ err), w)
      | Inr scanID \<Rightarrow>
     (case ScanRepository_Get e scanID w of
        Inl err \<Rightarrow> (Inl (NotFound, ''scan not found: '' @ err), w)
      | Inr scan \<Rightarrow>
          if Status scan = ScanStatusCompleted \<or> Status scan = ScanStatusFailed then
            (Inl (FailedPrecondition, ''scan already completed''), w)
          else if Status scan = ScanStatusCancelled then (Inr (), w)
          else
            (let w1 = (if nonEmpty (JobName scan)
                       then (case JobDispatcher_CancelJob e (stringValue (JobNamespace scan))
                                    (stringValue (JobName scan)) w of
                               (Some err, w') \<Rightarrow> w'
                             | (None, w') \<Rightarrow> w')
                       else w)
             in case ScanRepository_UpdateStatus e scanID ScanStatusCancelled w1 of
                  (Some err, w2) \<Rightarrow> (Inl (Internal, ''failed to cancel scan: '' @ err), w2)
                | (None, w2) \<Rightarrow> (Inr (), w2))))"

text \<open>
  \<open>ScanServiceServer.CreateFindings\<close>. Each finding gets a UUID of its own. The response
  carries the number of findings, returned here.
\<close>

definition ScanServiceServer_CreateFindings ::
  "env \<Rightarrow> CreateFindingsRequest \<Rightarrow> world \<Rightarrow> (status_error + int) \<times> world" where
  "ScanServiceServer_CreateFindings e req w =
     (if cf_ScanId req = '''' then (Inl (InvalidArgument, ''scan_id is required''), w)
      else
        (case uuid_Parse e (cf_ScanId req) of
           Inl err \<Rightarrow> (Inl (InvalidArgument, ''invalid scan_id: '' @ err), w)
         | Inr scanID \<Rightarrow>
        (case ScanRepository_Get e scanID w of
           Inl err \<Rightarrow> (Inl (NotFound, ''scan not found: '' @ err), w)
         | Inr _ \<Rightarrow>
             (let n = length (cf_Findings req);
                  fs = map (\<lambda>(i, pf). convertFindingFromProto (uuid_New e (drawn w + i)) pf scanID)
                         (zip [0..<n] (cf_Findings req));
                  w1 = w\<lparr>drawn := drawn w + n\<rparr>
              in case FindingRepository_CreateBatch e fs w1 of
                   (Some err, w2) \<Rightarrow> (Inl (Internal, ''failed to create findings: '' @ err), w2)
                 | (None, w2) \<Rightarrow> (Inr (int (length fs)), w2)))))"

text \<open>
  \<open>ScanServiceServer.DeleteScan\<close>. Failures of \<open>DeleteJob\<close> and \<open>DeleteArtifacts\<close> are logged
  only; a failure of either repository call ends the handler with \<open>Internal\<close>.
\<close>

definition ScanServiceServer_DeleteScan ::
  "env \<Rightarrow> string \<Rightarrow> world \<Rightarrow> (status_error + unit) \<times> world" where
  "ScanServiceServer_DeleteScan e req_Id w =
     (case uuid_Parse e req_Id of
        Inl err \<Rightarrow> (Inl (InvalidArgument, ''invalid scan_id: '' @ err), w)
      | Inr scanID \<Rightarrow>
     (case ScanRepository_Get e scanID w of
        Inl err \<Rightarrow> (Inl (NotFound, ''scan not found: '' @ err), w)
      | Inr scan \<Rightarrow>
          (let w1 = (if nonEmpty (JobName scan)
                     then (case JobDispatcher_DeleteJob e (stringValue (JobNamespace scan))
                                  (stringValue (JobName scan)) w of
                             (Some err, w') \<Rightarrow> w'
                           | (None, w') \<Rightarrow> w')
                     else w);
               artifactIDs = (if nonEmpty (SourceArchiveKey scan)
                              then [stringValue (SourceArchiveKey scan)] else []);
               w2 = (if length artifactIDs > 0
                     then (case StorageClient_DeleteArtifacts e artifactIDs w1 of
                             (Some err, w') \<Rightarrow> w'
                           | (None, w') \<Rightarrow> w')
                     else w1)
           in case FindingRepository_DeleteByScanID e (ID scan) w2 of
                (Some err, w3) \<Rightarrow> (Inl (Internal, ''failed to delete findings: '' @ err), w3)
              | (None, w3) \<Rightarrow>
                  (case ScanRepository_Delete e (ID scan) w3 of
                     (Some err, w4) \<Rightarrow> (Inl (Internal, ''failed to delete scan: '' @ err), w4)
                   | (None, w4) \<Rightarrow> (Inr (), w4)))))"

section \<open>Background workers\<close>

text \<open>A \<open>for _, x := range xs\<close> loop whose body changes the world and returns nothing.\<close>

fun for_each :: "('a \<Rightarrow> world \<Rightarrow> world) \<Rightarrow> 'a list \<Rightarrow> world \<Rightarrow> world" where
  "for_each body [] w = w"
| "for_each body (x # xs) w = for_each body xs (body x w)"

subsection \<open>Dispatcher\<close>

text \<open>
  \<open>Dispatcher.dispatchScan\<close>. The scan is the one read by the listing; the handler changes
  its fields and hands it to \<open>Update\<close>. Both outcomes of \<open>Update\<close> are logged only.
\<close>

definition Dispatcher_dispatchScan :: "env \<Rightarrow> Scan \<Rightarrow> world \<Rightarrow> world" where
  "Dispatcher_dispatchScan e scan w =
     (case JobDispatcher_CreateJob e scan w of
        (Inl err, w1) \<Rightarrow>
             snd (ScanRepository_Update e
                    (scan\<lparr>Status := ScanStatusFailed, ErrorMessage := Some err\<rparr>) w1)
      | (Inr job, w1) \<Rightarrow>
             snd (ScanRepository_Update e
                    (scan\<lparr>JobName := Some (job_Name job),
                          JobNamespace := Some (job_Namespace job),
                          Status := ScanStatusRunning,
                          StartedAt := Some (now e)\<rparr>) w1))"

text \<open>\<open>Dispatcher.dispatch\<close>: one tick.\<close>

definition Dispatcher_dispatch :: "env \<Rightarrow> world \<Rightarrow> world" where
  "Dispatcher_dispatch e w =
     (case ScanRepository_List e (ScanFilter0\<lparr>flt_Status := Some ScanStatusQueued\<rparr>) w of
        Inl err \<Rightarrow> w
      | Inr rs \<Rightarrow>
          if length rs = 0 then w else for_each (Dispatcher_dispatchScan e) rs w)"

subsection \<open>Sweeper\<close>

text \<open>
  The sweeper is written against the scan whose nullable columns are plain strings; it reads
  \<open>scan.JobName\<close> and \<open>scan.JobNamespace\<close> as \<open>stringValue\<close> gives them (NULL is the empty
  string) and stores the error text as a set column.

  The loop over the job's conditions, which stops at the first condition of type "Failed"
  with status "True".
\<close>

fun conditionMessage :: "JobCondition list \<Rightarrow> string option" where
  "conditionMessage [] = None"
| "conditionMessage (cond # conds) =
     (if cond_Type cond = ''Failed'' \<and> cond_Status cond = ''True''
      then Some (if Message cond = '''' then Reason cond else Message cond)
      else conditionMessage conds)"

text \<open>
  The error text when no condition gave one: the logs if they could be read and are not
  empty, cut to their last 500 bytes behind "..." when longer than 500 bytes; otherwise the
  default text.
\<close>

definition logsMessage :: "string + string \<Rightarrow> string" where
  "logsMessage r =
     (case r of
        Inr logs \<Rightarrow>
          if logs \<noteq> '''' then
            (if length logs > 500 then ''...'' @ drop (length logs - 500) logs else logs)
          else ''Job failed with unknown error''
      | Inl err \<Rightarrow> ''Job failed with unknown error'')"

text \<open>The end of \<open>Sweeper.processScan\<close>, from "Update scan status in database" on.\<close>

definition Sweeper_writeStatus ::
  "env \<Rightarrow> Scan \<Rightarrow> ScanStatus \<Rightarrow> string option \<Rightarrow> world \<Rightarrow> world" where
  "Sweeper_writeStatus e scan newStatus errorMessage w =
     (let scan1 = scan\<lparr>Status := newStatus\<rparr>;
          scan2 = (case errorMessage of
                     Some msg \<Rightarrow> scan1\<lparr>ErrorMessage := Some msg\<rparr>
                   | None \<Rightarrow> scan1);
          scan3 = (if newStatus = ScanStatusCompleted \<or> newStatus = ScanStatusFailed
                   then scan2\<lparr>CompletedAt := Some (now e)\<rparr> else scan2)
      in snd (ScanRepository_Update e scan3 w))"

text \<open>\<open>Sweeper.processScan\<close>.\<close>

definition Sweeper_processScan :: "env \<Rightarrow> Scan \<Rightarrow> world \<Rightarrow> world" where
  "Sweeper_processScan e scan w =
     (if stringValue (JobName scan) = '''' then w
      else
        (let jobNamespace = stringValue (JobNamespace scan);
             jobName = stringValue (JobName scan)
         in case JobDispatcher_GetJobStatus e jobNamespace jobName w of
              (Inl err, w1) \<Rightarrow> w1
            | (Inr jobStatus, w1) \<Rightarrow>
                if Succeeded jobStatus > 0 then
                  Sweeper_writeStatus e scan ScanStatusCompleted None w1
                else if Failed jobStatus > 0 then
                  (case conditionMessage (Conditions jobStatus) of
                     Some msg \<Rightarrow> Sweeper_writeStatus e scan ScanStatusFailed (Some msg) w1
                   | None \<Rightarrow>
                       (case JobDispatcher_GetJobLogs e jobNamespace jobName w1 of
                          (logs, w2) \<Rightarrow>
                            Sweeper_writeStatus e scan ScanStatusFailed
                              (Some (logsMessage logs)) w2))
                else if Active jobStatus > 0 then
                  (if Status scan \<noteq> ScanStatusRunning
                   then Sweeper_writeStatus e scan ScanStatusRunning None w1
                   else w1)
                else w1))"

text \<open>\<open>Sweeper.sweep\<close>: one tick.\<close>

definition Sweeper_sweep :: "env \<Rightarrow> world \<Rightarrow> world" where
  "Sweeper_sweep e w =
     (case ScanRepository_List e (ScanFilter0\<lparr>flt_Status := Some ScanStatusQueued\<rparr>) w of
        Inl err \<Rightarrow> w
      | Inr queuedScans \<Rightarrow>
     (case ScanRepository_List e (ScanFilter0\<lparr>flt_Status := Some ScanStatusRunning\<rparr>) w of
        Inl err \<Rightarrow> w
      | Inr runningScans \<Rightarrow>
          for_each (Sweeper_processScan e) (queuedScans @ runningScans) w))"

subsection \<open>Cleaner\<close>

text \<open>
  The sources hold the cleaner twice; the one embedded is the one with a default namespace,
  which lists the final statuses one by one.
\<close>

record Cleaner =
  retentionDays :: int
  cleanupTime :: string
  defaultNamespace :: string

text \<open>\<open>t.AddDate(0, 0, days)\<close> in a zone without clock changes: a day is 86400 seconds.\<close>

definition AddDate_days :: "time \<Rightarrow> int \<Rightarrow> time" where
  "AddDate_days t days = t + 86400 * days"

text \<open>
  The first loop of \<open>Cleaner.cleanup\<close>: one listing per final status, each with
  \<open>CreatedBefore\<close> and \<open>Status\<close> set in the filter; a listing that fails is skipped.
\<close>

definition finalStatuses :: "ScanStatus list" where
  "finalStatuses = [ScanStatusCompleted, ScanStatusFailed, ScanStatusCancelled]"

fun Cleaner_listFinal :: "env \<Rightarrow> time \<Rightarrow> ScanStatus list \<Rightarrow> world \<Rightarrow> Scan list" where
  "Cleaner_listFinal e cutoffDate [] w = []"
| "Cleaner_listFinal e cutoffDate (status # statuses) w =
     (case ScanRepository_List e
             (ScanFilter0\<lparr>CreatedBefore := Some cutoffDate, flt_Status := Some status\<rparr>) w of
        Inl err \<Rightarrow> Cleaner_listFinal e cutoffDate statuses w
      | Inr rs \<Rightarrow> rs @ Cleaner_listFinal e cutoffDate statuses w)"

definition Cleaner_scansToClean :: "env \<Rightarrow> Cleaner \<Rightarrow> world \<Rightarrow> Scan list" where
  "Cleaner_scansToClean e c w =
     Cleaner_listFinal e (AddDate_days (now e) (- retentionDays c)) finalStatuses w"

text \<open>\<open>Cleaner.cleanupScan\<close>.\<close>

definition Cleaner_cleanupScan ::
  "env \<Rightarrow> Cleaner \<Rightarrow> Scan \<Rightarrow> world \<Rightarrow> string option \<times> world" where
  "Cleaner_cleanupScan e c scan w =
     (let w1 = (if nonEmpty (JobName scan)
                then (let jobNamespace =
                            (if nonEmpty (JobNamespace scan)
                             then stringValue (JobNamespace scan) else defaultNamespace c)
                      in case JobDispatcher_DeleteJob e jobNamespace
                                (stringValue (JobName scan)) w of
                           (Some err, w') \<Rightarrow> w'
                         | (None, w') \<Rightarrow> w')
                else w);
          artifactIDs = (if nonEmpty (SourceArchiveKey scan)
                         then [stringValue (SourceArchiveKey scan)] else []);
          w2 = (if length artifactIDs > 0
                then (case StorageClient_DeleteArtifacts e artifactIDs w1 of
                        (Some err, w') \<Rightarrow> w'
                      | (None, w') \<Rightarrow> w')
                else w1)
      in case FindingRepository_DeleteByScanID e (ID scan) w2 of
           (Some err, w3) \<Rightarrow> (Some err, w3)
         | (None, w3) \<Rightarrow>
             (case ScanRepository_Delete e (ID scan) w3 of
                (Some err, w4) \<Rightarrow> (Some err, w4)
              | (None, w4) \<Rightarrow> (None, w4)))"

text \<open>\<open>Cleaner.cleanup\<close>: one cycle. The success and failure counts are logged only.\<close>

definition Cleaner_cleanup :: "env \<Rightarrow> Cleaner \<Rightarrow> world \<Rightarrow> world" where
  "Cleaner_cleanup e c w =
     for_each (\<lambda>scan w'. snd (Cleaner_cleanupScan e c scan w')) (Cleaner_scansToClean e c w) w"

section \<open>Sample environment and rows\<close>

text \<open>
  Concrete inputs on which the theorems below are instantiated. The sample environment:
  the clock stands at day 100, the database executes every statement, job creation
  succeeds in namespace "cloudscan", the workload manager reports one failed pod with a
  condition of type "Failed" whose status is "False", the pod's log is "boom", cancelling
  a job fails, and the strings "1", "2" and "3" parse as UUIDs.
\<close>

definition sample_status :: JobStatus where
  "sample_status = \<lparr>Name = ''scan-00000001'', Namespace = ''cloudscan'', Active = 0,
     Succeeded = 0, Failed = 1, StartTime = None, CompletionTime = None,
     Conditions = [\<lparr>cond_Type = ''Failed'', cond_Status = ''False'', Reason = ''r'',
                    Message = ''m''\<rparr>],
     PodName = ''pod''\<rparr>"

definition sample_env :: env where
  "sample_env = \<lparr>now = 8640000, db_fault = (\<lambda>q. None),
     CreateJob = (\<lambda>scan. Inr \<lparr>job_Name = ''scan-00000001'', job_Namespace = ''cloudscan''\<rparr>),
     GetJobStatus = (\<lambda>namespace name. Inr sample_status),
     GetJobLogs = (\<lambda>namespace name. Inr ''boom''),
     CancelJob = (\<lambda>namespace name. Some ''job not found: scan-00000001''),
     DeleteJob = (\<lambda>namespace name. None),
     DeleteArtifacts = (\<lambda>artifactIDs. None),
     uuid_Parse = (\<lambda>s. if s = ''1'' then Inr 1 else if s = ''2'' then Inr 2
                        else if s = ''3'' then Inr 3 else Inl ''invalid UUID length''),
     uuid_New = (\<lambda>n. 100 + n)\<rparr>"

text \<open>A row with the given id, status, creation time and job name.\<close>

definition sample_scan :: "uuid \<Rightarrow> ScanStatus \<Rightarrow> time \<Rightarrow> string option \<Rightarrow> Scan" where
  "sample_scan i st t job = \<lparr>ID = i, OrganizationID = 1, ProjectID = 2, UserID = 0,
     Status = st, ScanTypes = [ScanTypeSAST], RepositoryURL = Some ''https://x/y'',
     Branch = None, CommitSHA = None, SourceArchiveKey = None, JobName = job,
     JobNamespace = None, FindingsCount = 0, CriticalCount = 0, HighCount = 0,
     MediumCount = 0, LowCount = 0, StartedAt = None, CompletedAt = None,
     ErrorMessage = None, CreatedAt = t, UpdatedAt = t\<rparr>"

definition sample_finding :: "uuid \<Rightarrow> uuid \<Rightarrow> Finding" where
  "sample_finding i scanID = \<lparr>FindingID = i, ScanID = scanID,
     FindingScanType = ScanTypeSAST, ToolName = ''semgrep'', Title = ''t'',
     Description = ''d'', FindingSeverity = SeverityHigh, FilePath = ''a.go'',
     StartLine = 1, CodeSnippet = ''x'', CWEID = ''CWE-1'', CVEID = ''CVE-1'',
     FindingCreatedAt = 0\<rparr>"

definition sample_world :: "Scan list \<Rightarrow> Finding list \<Rightarrow> world" where
  "sample_world rs fs = \<lparr>scans = rs, findings = fs, calls = [], drawn = 0\<rparr>"

definition sample_request :: CreateScanRequest where
  "sample_request = \<lparr>cs_OrganizationId = ''1'', cs_ProjectId = ''2'', cs_UserId = '''',
     cs_ScanTypes = [SAST, SCA], cs_GitUrl = ''https://x/y'', cs_GitBranch = ''main'',
     cs_GitCommit = '''', cs_SourceArtifactId = ''''\<rparr>"

definition sample_cleaner :: Cleaner where
  "sample_cleaner = \<lparr>retentionDays = 90, cleanupTime = ''00:00'',
     defaultNamespace = ''cloudscan''\<rparr>"

text \<open>Four rows: a running scan with a job, a completed one, a cancelled one, a queued one.\<close>

definition sample_rows :: "Scan list" where
  "sample_rows =
     [sample_scan 1 ScanStatusRunning 1000 (Some ''scan-00000001''),
      sample_scan 2 ScanStatusCompleted 2000 (Some ''scan-00000002''),
      sample_scan 3 ScanStatusCancelled 3000 None,
      sample_scan 4 ScanStatusQueued 4000 None]"

text \<open>A completed scan created 40000 seconds before the sample clock, and an old queued one.\<close>

definition recent_rows :: "Scan list" where
  "recent_rows =
     [sample_scan 5 ScanStatusCompleted 8600000 (Some ''scan-00000005''),
      sample_scan 6 ScanStatusQueued 4000 None]"

text \<open>Two queued scans, the older one stored first.\<close>

definition queued_rows :: "Scan list" where
  "queued_rows =
     [sample_scan 8 ScanStatusQueued 4000 None,
      sample_scan 9 ScanStatusQueued 5000 None]"

section \<open>Properties\<close>

subsection \<open>Listing ignores the page size\<close>

lemma matches_PageSize: "matches (f\<lparr>PageSize := p\<rparr>) = matches f"
  by (rule ext) (simp add: matches_def)

lemma limit_offset_PageSize: "limit_offset (f\<lparr>PageSize := p\<rparr>) = limit_offset f"
  by (rule ext) (simp add: limit_offset_def)

lemma list_query_PageSize: "list_query (f\<lparr>PageSize := p\<rparr>) = list_query f"
  by (simp add: list_query_def)

lemma List_PageSize:
  "ScanRepository_List e (f\<lparr>PageSize := p\<rparr>) w = ScanRepository_List e f w"
  by (simp add: ScanRepository_List_def matches_PageSize limit_offset_PageSize
        list_query_PageSize split: option.splits)

lemma PageSize_commute:
  "f\<lparr>PageSize := p, flt_OrganizationID := a\<rparr> = f\<lparr>flt_OrganizationID := a, PageSize := p\<rparr>"
  "f\<lparr>PageSize := p, flt_ProjectID := b\<rparr> = f\<lparr>flt_ProjectID := b, PageSize := p\<rparr>"
  "f\<lparr>PageSize := p, flt_Status := c\<rparr> = f\<lparr>flt_Status := c, PageSize := p\<rparr>"
  by simp_all

text \<open>
  C10. Two \<open>ListScans\<close> requests that differ only in \<open>page_size\<close> get the same answer, the
  same scans in the same order or the same error: the handler puts \<open>page_size\<close> into the
  filter's \<open>PageSize\<close>, which \<open>ScanRepository.List\<close> never reads (it reads \<open>Limit\<close> and
  \<open>Offset\<close>, which the handler leaves at zero).
\<close>

theorem ListScans_page_size_irrelevant:
  "ScanServiceServer_ListScans e (req\<lparr>ls_PageSize := p\<rparr>) w =
   ScanServiceServer_ListScans e (req\<lparr>ls_PageSize := q\<rparr>) w"
  by (simp add: ScanServiceServer_ListScans_def Let_def PageSize_commute List_PageSize
        split: sum.splits)

subsection \<open>CreateScan\<close>

lemma CreateScan_rejects:
  assumes "cs_OrganizationId req = '''' \<or> cs_ProjectId req = '''' \<or> cs_ScanTypes req = [] \<or>
           (cs_GitUrl req = '''' \<and> cs_SourceArtifactId req = '''')"
  shows "\<exists>msg. ScanServiceServer_CreateScan e req w = (Inl (InvalidArgument, msg), w)"
  using assms by (auto simp: ScanServiceServer_CreateScan_def)

lemma inserted_row_fresh:
  "FindingsCount s = 0 \<Longrightarrow> CriticalCount s = 0 \<Longrightarrow> HighCount s = 0 \<Longrightarrow> MediumCount s = 0 \<Longrightarrow>
   LowCount s = 0 \<Longrightarrow> StartedAt s = None \<Longrightarrow> CompletedAt s = None \<Longrightarrow> ErrorMessage s = None \<Longrightarrow>
   inserted_row s = s"
  by (simp add: inserted_row_def)

lemma CreateScan_accepts:
  assumes "cs_OrganizationId req \<noteq> ''''" "cs_ProjectId req \<noteq> ''''" "cs_ScanTypes req \<noteq> []"
    and "cs_GitUrl req \<noteq> '''' \<or> cs_SourceArtifactId req \<noteq> ''''"
    and "uuid_Parse e (cs_OrganizationId req) = Inr orgID"
    and "uuid_Parse e (cs_ProjectId req) = Inr projectID"
    and "cs_UserId req = '''' \<or> uuid_Parse e (cs_UserId req) = Inr userID"
    and "db_fault e (QCreate (uuid_New e (drawn w))) = None"
  shows "\<exists>scan w'. ScanServiceServer_CreateScan e req w = (Inr scan, w') \<and>
           Status scan = ScanStatusQueued \<and> convertScanStatusToProto (Status scan) = QUEUED \<and>
           scans w' = scans w @ [scan]"
  using assms
  by (auto simp: ScanServiceServer_CreateScan_def ScanRepository_Create_def Let_def
        inserted_row_fresh convertScanStatusToProto_def)

text \<open>
  C9. \<open>CreateScan\<close> answers \<open>InvalidArgument\<close>, and leaves the world as it was, whenever
  the organization id is empty, the project id is empty, the list of scan kinds is empty,
  or the repository URL and the source-archive identifier are both empty. For a valid
  request (none of these, and the ids parse as UUIDs) that the database accepts, it returns
  a scan whose status is queued (\<open>QUEUED\<close> in the response message) and that scan is the
  row appended to the scans table.
\<close>

theorem CreateScan_validates_and_queues:
  "(cs_OrganizationId req = '''' \<or> cs_ProjectId req = '''' \<or> cs_ScanTypes req = [] \<or>
      (cs_GitUrl req = '''' \<and> cs_SourceArtifactId req = '''')
    \<longrightarrow> (\<exists>msg. ScanServiceServer_CreateScan e req w = (Inl (InvalidArgument, msg), w)))
   \<and>
   (cs_OrganizationId req \<noteq> '''' \<and> cs_ProjectId req \<noteq> '''' \<and> cs_ScanTypes req \<noteq> [] \<and>
      (cs_GitUrl req \<noteq> '''' \<or> cs_SourceArtifactId req \<noteq> '''') \<and>
      uuid_Parse e (cs_OrganizationId req) = Inr orgID \<and>
      uuid_Parse e (cs_ProjectId req) = Inr projectID \<and>
      (cs_UserId req = '''' \<or> uuid_Parse e (cs_UserId req) = Inr userID) \<and>
      db_fault e (QCreate (uuid_New e (drawn w))) = None
    \<longrightarrow> (\<exists>scan w'. ScanServiceServer_CreateScan e req w = (Inr scan, w') \<and>
           Status scan = ScanStatusQueued \<and> convertScanStatusToProto (Status scan) = QUEUED \<and>
           scans w' = scans w @ [scan]))"
  using CreateScan_rejects [of req e w] CreateScan_accepts [of req e orgID projectID userID w]
  by blast

theorem CreateScan_validates_and_queues_witness:
  "(\<exists>msg. ScanServiceServer_CreateScan sample_env (sample_request\<lparr>cs_ScanTypes := []\<rparr>)
             (sample_world [] []) = (Inl (InvalidArgument, msg), sample_world [] []))
   \<and> (\<exists>scan w'. ScanServiceServer_CreateScan sample_env sample_request (sample_world [] [])
                   = (Inr scan, w') \<and>
           Status scan = ScanStatusQueued \<and> convertScanStatusToProto (Status scan) = QUEUED \<and>
           scans w' = scans (sample_world [] []) @ [scan])"
proof -
  have bad: "cs_ScanTypes (sample_request\<lparr>cs_ScanTypes := []\<rparr>) = []" by simp
  have good: "cs_OrganizationId sample_request \<noteq> '''' \<and> cs_ProjectId sample_request \<noteq> '''' \<and>
      cs_ScanTypes sample_request \<noteq> [] \<and>
      (cs_GitUrl sample_request \<noteq> '''' \<or> cs_SourceArtifactId sample_request \<noteq> '''') \<and>
      uuid_Parse sample_env (cs_OrganizationId sample_request) = Inr 1 \<and>
      uuid_Parse sample_env (cs_ProjectId sample_request) = Inr 2 \<and>
      (cs_UserId sample_request = '''' \<or> uuid_Parse sample_env (cs_UserId sample_request) = Inr 0) \<and>
      db_fault sample_env (QCreate (uuid_New sample_env (drawn (sample_world [] [])))) = None"
    by (simp add: sample_request_def sample_env_def)
  show ?thesis
    using CreateScan_validates_and_queues
            [of "sample_request\<lparr>cs_ScanTypes := []\<rparr>" sample_env "sample_world [] []" 1 2 0]
          CreateScan_validates_and_queues [of sample_request sample_env "sample_world [] []" 1 2 0]
          bad good
    by blast
qed

subsection \<open>CancelScan\<close>

lemma case_option_same: "(case x of None \<Rightarrow> a | Some y \<Rightarrow> a) = a"
  by (cases x) simp_all

lemma find_Some_filter: "find P xs = Some r \<Longrightarrow> filter P xs \<noteq> []"
  by (induction xs) (auto split: if_splits)

lemma find_set_status:
  "find (\<lambda>r. ID r = sid) rs = Some r \<Longrightarrow>
   find (\<lambda>r. ID r = sid) (set_status t sid st rs) = Some (r\<lparr>Status := st, UpdatedAt := t\<rparr>)"
  by (induction rs) (auto simp: set_status_def split: if_splits)

lemma filter_set_status_other:
  "filter (\<lambda>r. ID r \<noteq> sid) (set_status t sid st rs) = filter (\<lambda>r. ID r \<noteq> sid) rs"
  by (induction rs) (auto simp: set_status_def)

lemma Get_Inr:
  "ScanRepository_Get e sid w = Inr scan \<longleftrightarrow>
   db_fault e (QGet sid) = None \<and> find (\<lambda>r. ID r = sid) (scans w) = Some scan"
  by (auto simp: ScanRepository_Get_def split: option.splits)

lemma CancelScan_cancelled:
  assumes "uuid_Parse e req_Id = Inr sid" "ScanRepository_Get e sid w = Inr scan"
    and "Status scan = ScanStatusCancelled"
  shows "ScanServiceServer_CancelScan e req_Id w = (Inr (), w)"
  using assms
  by (simp add: ScanServiceServer_CancelScan_def ScanStatusCancelled_def
        ScanStatusCompleted_def ScanStatusFailed_def)

lemma CancelScan_finished:
  assumes "uuid_Parse e req_Id = Inr sid" "ScanRepository_Get e sid w = Inr scan"
    and "Status scan = ScanStatusCompleted \<or> Status scan = ScanStatusFailed"
  shows "ScanServiceServer_CancelScan e req_Id w =
           (Inl (FailedPrecondition, ''scan already completed''), w)"
  using assms by (auto simp: ScanServiceServer_CancelScan_def)

lemma CancelScan_active:
  assumes p: "uuid_Parse e req_Id = Inr sid" and g: "ScanRepository_Get e sid w = Inr scan"
    and st: "Status scan = ScanStatusQueued \<or> Status scan = ScanStatusRunning"
    and db: "db_fault e (QUpdateStatus sid ScanStatusCancelled) = None"
  shows "\<exists>w'. ScanServiceServer_CancelScan e req_Id w = (Inr (), w') \<and>
           calls w' = calls w @
             (if nonEmpty (JobName scan)
              then [CancelJobCall (stringValue (JobNamespace scan)) (stringValue (JobName scan))]
              else []) \<and>
           ScanRepository_Get e sid w' =
             Inr (scan\<lparr>Status := ScanStatusCancelled, UpdatedAt := now e\<rparr>) \<and>
           filter (\<lambda>r. ID r \<noteq> sid) (scans w') = filter (\<lambda>r. ID r \<noteq> sid) (scans w) \<and>
           findings w' = findings w"
proof -
  from g have f: "find (\<lambda>r. ID r = sid) (scans w) = Some scan"
    and q: "db_fault e (QGet sid) = None"
    by (simp_all add: Get_Inr)
  from st have n1: "\<not> (Status scan = ScanStatusCompleted \<or> Status scan = ScanStatusFailed)"
    and n2: "Status scan \<noteq> ScanStatusCancelled"
    by (auto simp: ScanStatusQueued_def ScanStatusRunning_def ScanStatusCompleted_def
          ScanStatusFailed_def ScanStatusCancelled_def)
  have ne: "filter (\<lambda>r. ID r = sid) (scans w) \<noteq> []"
    using f by (rule find_Some_filter)
  define cs where "cs = (if nonEmpty (JobName scan)
              then [CancelJobCall (stringValue (JobNamespace scan)) (stringValue (JobName scan))]
              else [])"
  define w' where "w' = w\<lparr>calls := calls w @ cs,
                       scans := set_status (now e) sid ScanStatusCancelled (scans w)\<rparr>"
  have eq: "ScanServiceServer_CancelScan e req_Id w = (Inr (), w')"
    using p g n1 n2 db ne
    by (simp add: ScanServiceServer_CancelScan_def ScanRepository_UpdateStatus_def
          JobDispatcher_CancelJob_def send_def Let_def w'_def cs_def case_option_same)
  have "ScanRepository_Get e sid w' =
          Inr (scan\<lparr>Status := ScanStatusCancelled, UpdatedAt := now e\<rparr>)"
    using q find_set_status [OF f] by (simp add: ScanRepository_Get_def w'_def)
  moreover have "filter (\<lambda>r. ID r \<noteq> sid) (scans w') = filter (\<lambda>r. ID r \<noteq> sid) (scans w)"
    by (simp add: w'_def filter_set_status_other)
  moreover have "calls w' = calls w @ cs" "findings w' = findings w"
    by (simp_all add: w'_def)
  ultimately show ?thesis
    using eq unfolding cs_def by blast
qed

lemma CancelJob_logged:
  "(case JobDispatcher_CancelJob e namespace name w of (Some err, w') \<Rightarrow> w' | (None, w') \<Rightarrow> w')
   = send (CancelJobCall namespace name) w"
  by (simp add: JobDispatcher_CancelJob_def case_option_same)

lemma Get_CancelJob: "ScanRepository_Get (e\<lparr>CancelJob := c\<rparr>) sid w = ScanRepository_Get e sid w"
  by (simp add: ScanRepository_Get_def split: option.splits)

lemma UpdateStatus_CancelJob:
  "ScanRepository_UpdateStatus (e\<lparr>CancelJob := c\<rparr>) sid st w = ScanRepository_UpdateStatus e sid st w"
  by (simp add: ScanRepository_UpdateStatus_def split: option.splits)

lemma CancelScan_ignores_CancelJob:
  "ScanServiceServer_CancelScan (e\<lparr>CancelJob := c\<rparr>) req_Id w =
   ScanServiceServer_CancelScan e req_Id w"
  by (simp add: ScanServiceServer_CancelScan_def CancelJob_logged Get_CancelJob
        UpdateStatus_CancelJob split: sum.splits)

lemma sample_Get:
  "ScanRepository_Get sample_env 1 (sample_world sample_rows []) =
     Inr (sample_scan 1 ScanStatusRunning 1000 (Some ''scan-00000001''))"
  "ScanRepository_Get sample_env 2 (sample_world sample_rows []) =
     Inr (sample_scan 2 ScanStatusCompleted 2000 (Some ''scan-00000002''))"
  "ScanRepository_Get sample_env 3 (sample_world sample_rows []) =
     Inr (sample_scan 3 ScanStatusCancelled 3000 None)"
  by (simp_all add: ScanRepository_Get_def sample_env_def sample_world_def sample_rows_def
        sample_scan_def)

lemma sample_Parse:
  "uuid_Parse sample_env ''1'' = Inr 1" "uuid_Parse sample_env ''2'' = Inr 2"
  "uuid_Parse sample_env ''3'' = Inr 3"
  by (simp_all add: sample_env_def)

text \<open>
  C7. For a request whose id parses and whose scan is found: on a cancelled scan
  \<open>CancelScan\<close> answers success and the world is as before; on a completed or failed scan
  it answers \<open>FailedPrecondition\<close> "scan already completed" and the world is as before; on
  a queued or running scan, when the database executes the status update, it answers
  success, has sent one \<open>CancelJob\<close> request if the scan carries a job name (none
  otherwise), the scan read back is the same scan with status cancelled, and no other row
  and no finding has changed. What \<open>CancelJob\<close> answers makes no difference.
\<close>

theorem CancelScan_by_status:
  assumes "uuid_Parse e req_Id = Inr sid" and "ScanRepository_Get e sid w = Inr scan"
  shows "(Status scan = ScanStatusCancelled \<longrightarrow>
            ScanServiceServer_CancelScan e req_Id w = (Inr (), w)) \<and>
         (Status scan = ScanStatusCompleted \<or> Status scan = ScanStatusFailed \<longrightarrow>
            ScanServiceServer_CancelScan e req_Id w =
              (Inl (FailedPrecondition, ''scan already completed''), w)) \<and>
         ((Status scan = ScanStatusQueued \<or> Status scan = ScanStatusRunning) \<and>
          db_fault e (QUpdateStatus sid ScanStatusCancelled) = None \<longrightarrow>
            (\<exists>w'. ScanServiceServer_CancelScan e req_Id w = (Inr (), w') \<and>
               calls w' = calls w @
                 (if nonEmpty (JobName scan)
                  then [CancelJobCall (stringValue (JobNamespace scan))
                          (stringValue (JobName scan))]
                  else []) \<and>
               ScanRepository_Get e sid w' =
                 Inr (scan\<lparr>Status := ScanStatusCancelled, UpdatedAt := now e\<rparr>) \<and>
               filter (\<lambda>r. ID r \<noteq> sid) (scans w') = filter (\<lambda>r. ID r \<noteq> sid) (scans w) \<and>
               findings w' = findings w)) \<and>
         ScanServiceServer_CancelScan (e\<lparr>CancelJob := c\<rparr>) req_Id w =
           ScanServiceServer_CancelScan e req_Id w"
  using CancelScan_cancelled [OF assms] CancelScan_finished [OF assms]
    CancelScan_active [OF assms] CancelScan_ignores_CancelJob [where e = e and c = c]
  by blast

theorem CancelScan_by_status_witness:
  "ScanServiceServer_CancelScan sample_env ''3'' (sample_world sample_rows []) =
     (Inr (), sample_world sample_rows []) \<and>
   ScanServiceServer_CancelScan sample_env ''2'' (sample_world sample_rows []) =
     (Inl (FailedPrecondition, ''scan already completed''), sample_world sample_rows []) \<and>
   (\<exists>w'. ScanServiceServer_CancelScan sample_env ''1'' (sample_world sample_rows []) =
           (Inr (), w') \<and>
         calls w' = [CancelJobCall '''' ''scan-00000001''] \<and>
         ScanRepository_Get sample_env 1 w' =
           Inr (sample_scan 1 ScanStatusCancelled 1000 (Some ''scan-00000001'')
                  \<lparr>UpdatedAt := 8640000\<rparr>))"
proof -
  have a: "ScanServiceServer_CancelScan sample_env ''3'' (sample_world sample_rows []) =
             (Inr (), sample_world sample_rows [])"
    using CancelScan_by_status [OF sample_Parse(3) sample_Get(3)]
    by (simp add: sample_scan_def)
  have b: "ScanServiceServer_CancelScan sample_env ''2'' (sample_world sample_rows []) =
             (Inl (FailedPrecondition, ''scan already completed''), sample_world sample_rows [])"
    using CancelScan_by_status [OF sample_Parse(2) sample_Get(2)]
    by (simp add: sample_scan_def)
  have db: "db_fault sample_env (QUpdateStatus 1 ScanStatusCancelled) = None"
    by (simp add: sample_env_def)
  have st: "Status (sample_scan 1 ScanStatusRunning 1000 (Some ''scan-00000001'')) =
              ScanStatusRunning"
    by (simp add: sample_scan_def)
  from CancelScan_by_status [OF sample_Parse(1) sample_Get(1)] st db
  obtain w' where
    r: "ScanServiceServer_CancelScan sample_env ''1'' (sample_world sample_rows []) = (Inr (), w')"
    and cs: "calls w' = calls (sample_world sample_rows []) @
       (if nonEmpty (JobName (sample_scan 1 ScanStatusRunning 1000 (Some ''scan-00000001'')))
        then [CancelJobCall
                (stringValue (JobNamespace
                   (sample_scan 1 ScanStatusRunning 1000 (Some ''scan-00000001''))))
                (stringValue (JobName
                   (sample_scan 1 ScanStatusRunning 1000 (Some ''scan-00000001''))))]
        else [])"
    and g: "ScanRepository_Get sample_env 1 w' =
              Inr (sample_scan 1 ScanStatusRunning 1000 (Some ''scan-00000001'')
                     \<lparr>Status := ScanStatusCancelled, UpdatedAt := now sample_env\<rparr>)"
    by blast
  have cs': "calls w' = [CancelJobCall '''' ''scan-00000001'']"
    using cs by (simp add: sample_scan_def sample_world_def nonEmpty_def stringValue_def)
  have g': "ScanRepository_Get sample_env 1 w' =
           Inr (sample_scan 1 ScanStatusCancelled 1000 (Some ''scan-00000001'')
                  \<lparr>UpdatedAt := 8640000\<rparr>)"
    using g by (simp add: sample_scan_def sample_env_def)
  from a b r cs' g' show ?thesis by blast
qed

subsection \<open>CreateBatch and CreateFindings\<close>

lemma CreateBatch_empty: "FindingRepository_CreateBatch e [] w = (None, w)"
  by (simp add: FindingRepository_CreateBatch_def)

lemma CreateBatch_success:
  assumes "FindingRepository_CreateBatch e fs w = (None, w')"
  shows "findings w' = findings w @ map (\<lambda>f. f\<lparr>FindingCreatedAt := now e\<rparr>) fs \<and>
         scans w' = scans w"
  using assms
  by (auto simp: FindingRepository_CreateBatch_def split: if_splits option.splits)

lemma CreateBatch_failure:
  assumes "FindingRepository_CreateBatch e fs w = (Some err, w')"
  shows "w' = w"
  using assms
  by (auto simp: FindingRepository_CreateBatch_def split: if_splits option.splits)

lemma CreateBatch_executes:
  assumes "db_fault e (QCreateBatch (map FindingID fs)) = None"
  shows "\<exists>w'. FindingRepository_CreateBatch e fs w = (None, w')"
  using assms by (simp add: FindingRepository_CreateBatch_def)

lemma CreateFindings_empty_findings:
  assumes "cf_Findings req = []"
  shows "findings (snd (ScanServiceServer_CreateFindings e req w)) = findings w"
  using assms
  by (simp add: ScanServiceServer_CreateFindings_def CreateBatch_empty split: sum.splits)

lemma CreateFindings_empty_succeeds:
  assumes "cf_Findings req = []" "cf_ScanId req \<noteq> ''''"
    and "uuid_Parse e (cf_ScanId req) = Inr sid" "ScanRepository_Get e sid w = Inr scan"
  shows "ScanServiceServer_CreateFindings e req w = (Inr 0, w)"
  using assms
  by (simp add: ScanServiceServer_CreateFindings_def CreateBatch_empty)

text \<open>
  C8. \<open>CreateBatch\<close> (the variant that inserts) on an empty batch returns no error and leaves
  the world as it was. On any batch it either returns no error, and then the findings table
  is the old one followed by every finding of the batch, or returns an error, and then the
  world is as it was; it returns no error whenever the database executes the one INSERT.
  \<open>CreateFindings\<close> with an empty batch inserts nothing, and for a scan that is found it
  answers success with count 0 and the world as it was.
\<close>

theorem CreateBatch_all_or_nothing:
  "FindingRepository_CreateBatch e [] w = (None, w) \<and>
   (FindingRepository_CreateBatch e fs w = (None, w') \<longrightarrow>
      findings w' = findings w @ map (\<lambda>f. f\<lparr>FindingCreatedAt := now e\<rparr>) fs \<and>
      scans w' = scans w) \<and>
   (FindingRepository_CreateBatch e fs w = (Some err, w') \<longrightarrow> w' = w) \<and>
   (db_fault e (QCreateBatch (map FindingID fs)) = None \<longrightarrow>
      (\<exists>w''. FindingRepository_CreateBatch e fs w = (None, w''))) \<and>
   (cf_Findings req = [] \<longrightarrow>
      findings (snd (ScanServiceServer_CreateFindings e req w)) = findings w) \<and>
   (cf_Findings req = [] \<and> cf_ScanId req \<noteq> '''' \<and>
    uuid_Parse e (cf_ScanId req) = Inr sid \<and> ScanRepository_Get e sid w = Inr scan \<longrightarrow>
      ScanServiceServer_CreateFindings e req w = (Inr 0, w))"
  using CreateBatch_empty [of e w] CreateBatch_success [of e fs w w']
    CreateBatch_failure [of e fs w err w'] CreateBatch_executes [of e fs w]
    CreateFindings_empty_findings [of req e w]
    CreateFindings_empty_succeeds [of req e sid w scan]
  by blast

theorem CreateBatch_all_or_nothing_witness:
  "FindingRepository_CreateBatch sample_env [] (sample_world sample_rows []) =
     (None, sample_world sample_rows []) \<and>
   (\<exists>w'. FindingRepository_CreateBatch sample_env [sample_finding 7 1, sample_finding 8 1]
           (sample_world sample_rows []) = (None, w') \<and>
         findings w' = [sample_finding 7 1\<lparr>FindingCreatedAt := 8640000\<rparr>,
                        sample_finding 8 1\<lparr>FindingCreatedAt := 8640000\<rparr>]) \<and>
   ScanServiceServer_CreateFindings sample_env \<lparr>cf_ScanId = ''1'', cf_Findings = []\<rparr>
     (sample_world sample_rows []) = (Inr 0, sample_world sample_rows [])"
proof -
  let ?w = "sample_world sample_rows []"
  let ?fs = "[sample_finding 7 1, sample_finding 8 1]"
  let ?req = "\<lparr>cf_ScanId = ''1'', cf_Findings = []\<rparr>"
  have a: "FindingRepository_CreateBatch sample_env [] ?w = (None, ?w)"
    using CreateBatch_all_or_nothing [of sample_env ?w] by blast
  have db: "db_fault sample_env (QCreateBatch (map FindingID ?fs)) = None"
    by (simp add: sample_env_def)
  from CreateBatch_all_or_nothing [of sample_env ?w ?fs] db
  obtain w' where r: "FindingRepository_CreateBatch sample_env ?fs ?w = (None, w')"
    by blast
  from CreateBatch_all_or_nothing [of sample_env ?w ?fs w'] r
  have "findings w' = findings ?w @ map (\<lambda>f. f\<lparr>FindingCreatedAt := now sample_env\<rparr>) ?fs"
    by blast
  then have b: "findings w' = [sample_finding 7 1\<lparr>FindingCreatedAt := 8640000\<rparr>,
                               sample_finding 8 1\<lparr>FindingCreatedAt := 8640000\<rparr>]"
    by (simp add: sample_world_def sample_env_def)
  have h: "cf_Findings ?req = [] \<and> cf_ScanId ?req \<noteq> '''' \<and>
           uuid_Parse sample_env (cf_ScanId ?req) = Inr 1 \<and>
           ScanRepository_Get sample_env 1 ?w =
             Inr (sample_scan 1 ScanStatusRunning 1000 (Some ''scan-00000001''))"
    using sample_Parse(1) sample_Get(1) by simp
  have c: "ScanServiceServer_CreateFindings sample_env ?req ?w = (Inr 0, ?w)"
    using CreateBatch_all_or_nothing
            [where e = sample_env and w = ?w and req = ?req and sid = 1
               and scan = "sample_scan 1 ScanStatusRunning 1000 (Some ''scan-00000001'')"] h
    by blast
  from a r b c show ?thesis by blast
qed

subsection \<open>DeleteScan\<close>

lemma case_option_same_pair:
  "(case p of (None, w') \<Rightarrow> f w' | (Some err, w') \<Rightarrow> f w') = f (snd p)"
  by (cases p) (simp add: case_option_same)

lemma DeleteJob_logged:
  "(case JobDispatcher_DeleteJob e namespace name w of (Some err, w') \<Rightarrow> w' | (None, w') \<Rightarrow> w')
   = send (DeleteJobCall namespace name) w"
  by (simp add: JobDispatcher_DeleteJob_def case_option_same)

lemma DeleteArtifacts_logged:
  "(case StorageClient_DeleteArtifacts e ids w of (Some err, w') \<Rightarrow> w' | (None, w') \<Rightarrow> w')
   = send (DeleteArtifactsCall ids) w"
  by (simp add: StorageClient_DeleteArtifacts_def case_option_same)

lemma find_Some_ID: "find (\<lambda>r. ID r = sid) rs = Some r \<Longrightarrow> ID r = sid"
  by (induction rs) (auto split: if_splits)

text \<open>What the teardown shared by \<open>DeleteScan\<close> and the cleaner does to the two tables.\<close>

lemma DeleteByScanID_Inr:
  "FindingRepository_DeleteByScanID e sid w = (None, w') \<Longrightarrow>
   w' = w\<lparr>findings := filter (\<lambda>f. ScanID f \<noteq> sid) (findings w)\<rparr>"
  by (auto simp: FindingRepository_DeleteByScanID_def split: option.splits)

lemma Delete_Inr:
  "ScanRepository_Delete e sid w = (None, w') \<Longrightarrow>
   w' = w\<lparr>scans := set_status (now e) sid ScanStatusCancelled (scans w)\<rparr>"
  by (auto simp: ScanRepository_Delete_def split: option.splits if_splits)

lemma DeleteScan_success:
  assumes p: "uuid_Parse e req_Id = Inr sid"
    and ok: "ScanServiceServer_DeleteScan e req_Id w = (Inr (), w')"
  shows "\<exists>scan. ScanRepository_Get e sid w = Inr scan \<and>
           findings w' = filter (\<lambda>f. ScanID f \<noteq> sid) (findings w) \<and>
           scans w' = set_status (now e) sid ScanStatusCancelled (scans w)"
proof (cases "ScanRepository_Get e sid w")
  case (Inl err)
  with p ok show ?thesis by (simp add: ScanServiceServer_DeleteScan_def)
next
  case (Inr scan)
  then have i: "ID scan = sid"
    by (auto simp: Get_Inr dest: find_Some_ID)
  define w2 where "w2 =
    (let w1 = (if nonEmpty (JobName scan)
               then send (DeleteJobCall (stringValue (JobNamespace scan))
                            (stringValue (JobName scan))) w
               else w);
         artifactIDs = (if nonEmpty (SourceArchiveKey scan)
                        then [stringValue (SourceArchiveKey scan)] else [])
     in if length artifactIDs > 0 then send (DeleteArtifactsCall artifactIDs) w1 else w1)"
  have t: "scans w2 = scans w" "findings w2 = findings w"
    by (simp_all add: w2_def send_def Let_def)
  have eq: "ScanServiceServer_DeleteScan e req_Id w =
    (case FindingRepository_DeleteByScanID e (ID scan) w2 of
       (Some err, w3) \<Rightarrow> (Inl (Internal, ''failed to delete findings: '' @ err), w3)
     | (None, w3) \<Rightarrow>
         (case ScanRepository_Delete e (ID scan) w3 of
            (Some err, w4) \<Rightarrow> (Inl (Internal, ''failed to delete scan: '' @ err), w4)
          | (None, w4) \<Rightarrow> (Inr (), w4)))"
    using p Inr
    by (simp add: ScanServiceServer_DeleteScan_def DeleteJob_logged DeleteArtifacts_logged
          w2_def Let_def)
  from ok eq i obtain w3 where
    d1: "FindingRepository_DeleteByScanID e sid w2 = (None, w3)"
    and d2: "ScanRepository_Delete e sid w3 = (None, w')"
    by (auto split: prod.splits option.splits)
  from DeleteByScanID_Inr [OF d1] Delete_Inr [OF d2] t Inr
  show ?thesis by simp
qed

lemma filter_filter_neq: "filter (\<lambda>f. ScanID f = sid) (filter (\<lambda>f. ScanID f \<noteq> sid) fs) = []"
  by (induction fs) auto

lemma map_ID_set_status: "map ID (set_status t sid st rs) = map ID rs"
  by (induction rs) (auto simp: set_status_def)

text \<open>
  C1, as amended. After \<open>DeleteScan\<close> has answered success for a scan, no finding with that
  scan's id is in the findings table, and the scan row is still in the scans table: the same
  rows are there under the same ids, and the scan read back is the scan as it was found
  with status cancelled. \<open>ScanRepository.Delete\<close> soft-deletes.
\<close>

theorem DeleteScan_soft_deletes:
  assumes "uuid_Parse e req_Id = Inr sid"
    and "ScanServiceServer_DeleteScan e req_Id w = (Inr (), w')"
  shows "filter (\<lambda>f. ScanID f = sid) (findings w') = [] \<and>
         map ID (scans w') = map ID (scans w) \<and>
         (\<exists>scan. ScanRepository_Get e sid w = Inr scan \<and>
            ScanRepository_Get e sid w' =
              Inr (scan\<lparr>Status := ScanStatusCancelled, UpdatedAt := now e\<rparr>))"
proof -
  from DeleteScan_success [OF assms] obtain scan where
    g: "ScanRepository_Get e sid w = Inr scan"
    and f: "findings w' = filter (\<lambda>f. ScanID f \<noteq> sid) (findings w)"
    and s: "scans w' = set_status (now e) sid ScanStatusCancelled (scans w)"
    by blast
  from g have q: "db_fault e (QGet sid) = None"
    and fi: "find (\<lambda>r. ID r = sid) (scans w) = Some scan"
    by (simp_all add: Get_Inr)
  have "ScanRepository_Get e sid w' =
          Inr (scan\<lparr>Status := ScanStatusCancelled, UpdatedAt := now e\<rparr>)"
    using q find_set_status [OF fi] by (simp add: ScanRepository_Get_def s)
  with g f s show ?thesis
    by (simp add: filter_filter_neq map_ID_set_status)
qed

text \<open>\<open>DeleteScan\<close> of the completed scan 2, which has one finding and a job.\<close>

lemma sample_DeleteScan:
  "ScanServiceServer_DeleteScan sample_env ''2''
     (sample_world sample_rows [sample_finding 7 2, sample_finding 8 3]) =
   (Inr (),
    \<lparr>scans = [sample_scan 1 ScanStatusRunning 1000 (Some ''scan-00000001''),
              sample_scan 2 ScanStatusCancelled 2000 (Some ''scan-00000002'')
                \<lparr>UpdatedAt := 8640000\<rparr>,
              sample_scan 3 ScanStatusCancelled 3000 None,
              sample_scan 4 ScanStatusQueued 4000 None],
     findings = [sample_finding 8 3],
     calls = [DeleteJobCall '''' ''scan-00000002''],
     drawn = 0\<rparr>)"
  by (simp add: ScanServiceServer_DeleteScan_def ScanRepository_Get_def
        FindingRepository_DeleteByScanID_def ScanRepository_Delete_def
        JobDispatcher_DeleteJob_def StorageClient_DeleteArtifacts_def send_def set_status_def
        sample_env_def sample_world_def sample_rows_def sample_scan_def sample_finding_def
        nonEmpty_def stringValue_def Let_def)

theorem DeleteScan_soft_deletes_witness:
  "filter (\<lambda>f. ScanID f = 2)
     (findings (snd (ScanServiceServer_DeleteScan sample_env ''2''
        (sample_world sample_rows [sample_finding 7 2, sample_finding 8 3])))) = [] \<and>
   map ID (scans (snd (ScanServiceServer_DeleteScan sample_env ''2''
        (sample_world sample_rows [sample_finding 7 2, sample_finding 8 3])))) = [1, 2, 3, 4] \<and>
   ScanRepository_Get sample_env 2
     (snd (ScanServiceServer_DeleteScan sample_env ''2''
        (sample_world sample_rows [sample_finding 7 2, sample_finding 8 3]))) =
     Inr (sample_scan 2 ScanStatusCancelled 2000 (Some ''scan-00000002'')
            \<lparr>UpdatedAt := 8640000\<rparr>)"
proof -
  let ?w = "sample_world sample_rows [sample_finding 7 2, sample_finding 8 3]"
  let ?w' = "snd (ScanServiceServer_DeleteScan sample_env ''2'' ?w)"
  have ok: "ScanServiceServer_DeleteScan sample_env ''2'' ?w = (Inr (), ?w')"
    by (simp add: sample_DeleteScan)
  have g: "ScanRepository_Get sample_env 2 ?w =
             Inr (sample_scan 2 ScanStatusCompleted 2000 (Some ''scan-00000002''))"
    by (simp add: ScanRepository_Get_def sample_env_def sample_world_def sample_rows_def
          sample_scan_def)
  from DeleteScan_soft_deletes [OF sample_Parse(2) ok] g
  have "filter (\<lambda>f. ScanID f = 2) (findings ?w') = []"
    and "map ID (scans ?w') = map ID (scans ?w)"
    and "ScanRepository_Get sample_env 2 ?w' =
           Inr (sample_scan 2 ScanStatusCompleted 2000 (Some ''scan-00000002'')
                  \<lparr>Status := ScanStatusCancelled, UpdatedAt := now sample_env\<rparr>)"
    by auto
  then show ?thesis
    by (simp add: sample_world_def sample_rows_def sample_scan_def sample_env_def)
qed

text \<open>
  The claim as stated fails: \<open>DeleteScan\<close> of scan 2 answers success, and the scans table
  still has its four rows, the row of scan 2 among them.
\<close>

theorem DeleteScan_keeps_row_counterexample:
  "fst (ScanServiceServer_DeleteScan sample_env ''2''
          (sample_world sample_rows [sample_finding 7 2, sample_finding 8 3])) = Inr () \<and>
   filter (\<lambda>r. ID r = 2)
     (scans (snd (ScanServiceServer_DeleteScan sample_env ''2''
        (sample_world sample_rows [sample_finding 7 2, sample_finding 8 3])))) =
     [sample_scan 2 ScanStatusCancelled 2000 (Some ''scan-00000002'')
        \<lparr>UpdatedAt := 8640000\<rparr>]"
  by (simp add: sample_DeleteScan sample_scan_def)

subsection \<open>Dispatcher: what a dispatch persists\<close>

lemma JobNamespace_updated_row: "JobNamespace (updated_row t scan r) = JobNamespace r"
  by (simp add: updated_row_def)

lemma Update_JobNamespace:
  "map JobNamespace (scans (snd (ScanRepository_Update e scan w))) = map JobNamespace (scans w)"
  by (simp add: ScanRepository_Update_def JobNamespace_updated_row split: option.splits)

text \<open>
  Whatever the workload manager answers, \<open>dispatchScan\<close> leaves the \<open>job_namespace\<close> column
  of every row as it was: the namespace it puts into the scan never reaches the UPDATE.
\<close>

lemma dispatchScan_JobNamespace_unchanged:
  "map JobNamespace (scans (Dispatcher_dispatchScan e scan w)) = map JobNamespace (scans w)"
proof (cases "CreateJob e scan")
  case (Inl err)
  then show ?thesis
    using Update_JobNamespace
            [of e "scan\<lparr>Status := ScanStatusFailed, ErrorMessage := Some err\<rparr>"
               "send (CreateJobCall scan) w"]
    by (simp add: Dispatcher_dispatchScan_def JobDispatcher_CreateJob_def send_def)
next
  case (Inr job)
  then show ?thesis
    using Update_JobNamespace
            [of e "scan\<lparr>JobName := Some (job_Name job),
                        JobNamespace := Some (job_Namespace job),
                        Status := ScanStatusRunning, StartedAt := Some (now e)\<rparr>"
               "send (CreateJobCall scan) w"]
    by (simp add: Dispatcher_dispatchScan_def JobDispatcher_CreateJob_def send_def)
qed

text \<open>
  C4. The queued scan 4 has no job yet; job creation succeeds with name "scan-00000001" in
  namespace "cloudscan". After \<open>dispatchScan\<close> the stored row has the job name, status
  running and started-at equal to the clock, and its job namespace is still NULL.
\<close>

theorem dispatchScan_loses_job_namespace:
  "CreateJob sample_env (sample_scan 4 ScanStatusQueued 4000 None) =
     Inr \<lparr>job_Name = ''scan-00000001'', job_Namespace = ''cloudscan''\<rparr> \<and>
   ScanRepository_Get sample_env 4
     (Dispatcher_dispatchScan sample_env (sample_scan 4 ScanStatusQueued 4000 None)
        (sample_world sample_rows [])) =
     Inr \<lparr>ID = 4, OrganizationID = 1, ProjectID = 2, UserID = 0,
          Status = ScanStatusRunning, ScanTypes = [ScanTypeSAST],
          RepositoryURL = Some ''https://x/y'', Branch = None, CommitSHA = None,
          SourceArchiveKey = None, JobName = Some ''scan-00000001'',
          JobNamespace = None, FindingsCount = 0, CriticalCount = 0, HighCount = 0,
          MediumCount = 0, LowCount = 0, StartedAt = Some 8640000, CompletedAt = None,
          ErrorMessage = None, CreatedAt = 4000, UpdatedAt = 8640000\<rparr>"
  by (simp add: Dispatcher_dispatchScan_def JobDispatcher_CreateJob_def send_def
        ScanRepository_Update_def ScanRepository_Get_def updated_row_def
        sample_env_def sample_world_def sample_rows_def sample_scan_def)

subsection \<open>Cleaner: which scans a cycle selects\<close>

lemma set_limit_offset: "set (limit_offset f rs) \<subseteq> set rs"
  by (auto simp: limit_offset_def Let_def dest: in_set_takeD in_set_dropD)

lemma List_subset:
  assumes "ScanRepository_List e f w = Inr rs"
  shows "set rs \<subseteq> {r \<in> set (scans w). matches f r}"
proof -
  from assms have "rs = limit_offset f (order_by_created_at_desc (filter (matches f) (scans w)))"
    by (auto simp: ScanRepository_List_def split: option.splits)
  then show ?thesis
    using set_limit_offset [of f "order_by_created_at_desc (filter (matches f) (scans w))"]
    by (auto simp: order_by_created_at_desc_def)
qed

lemma List_Status:
  assumes "ScanRepository_List e f w = Inr rs" "flt_Status f = Some st" "r \<in> set rs"
  shows "Status r = st \<and> r \<in> set (scans w)"
  using List_subset [OF assms(1)] assms(2,3) by (auto simp: matches_def)

text \<open>The part of the selection that holds: every scan selected has one of the statuses asked for.\<close>

lemma listFinal_Status:
  "r \<in> set (Cleaner_listFinal e cutoffDate statuses w) \<Longrightarrow>
   Status r \<in> set statuses \<and> r \<in> set (scans w)"
proof (induction statuses)
  case Nil
  then show ?case by simp
next
  case (Cons status statuses)
  show ?case
  proof (cases "ScanRepository_List e
      (ScanFilter0\<lparr>CreatedBefore := Some cutoffDate, flt_Status := Some status\<rparr>) w")
    case (Inl err)
    with Cons show ?thesis by auto
  next
    case (Inr rs)
    with Cons.prems have "r \<in> set rs \<or> r \<in> set (Cleaner_listFinal e cutoffDate statuses w)"
      by simp
    then show ?thesis
    proof
      assume "r \<in> set rs"
      with List_Status [OF Inr, of status r] show ?thesis by simp
    next
      assume "r \<in> set (Cleaner_listFinal e cutoffDate statuses w)"
      with Cons.IH show ?thesis by simp
    qed
  qed
qed

lemma scansToClean_terminal:
  "r \<in> set (Cleaner_scansToClean e c w) \<Longrightarrow> IsTerminal r \<and> r \<in> set (scans w)"
  using listFinal_Status [of r e _ finalStatuses w]
  by (auto simp: Cleaner_scansToClean_def finalStatuses_def IsTerminal_def)

text \<open>
  C2. The clock is at day 100 and the retention is 90 days, so the cutoff is day 10
  (864000 s). Scan 5 is completed and was created at 8600000 s, after the cutoff; the
  cleaner's cycle selects it all the same, deletes its job and its finding, and
  soft-deletes its row. The old queued scan 6 is not selected.
\<close>

theorem cleanup_selects_recent_scan:
  "AddDate_days (now sample_env) (- retentionDays sample_cleaner) = 864000 \<and>
   Cleaner_scansToClean sample_env sample_cleaner (sample_world recent_rows [sample_finding 7 5]) =
     [sample_scan 5 ScanStatusCompleted 8600000 (Some ''scan-00000005'')] \<and>
   Cleaner_cleanup sample_env sample_cleaner (sample_world recent_rows [sample_finding 7 5]) =
     \<lparr>scans = [sample_scan 5 ScanStatusCancelled 8600000 (Some ''scan-00000005'')
                 \<lparr>UpdatedAt := 8640000\<rparr>,
               sample_scan 6 ScanStatusQueued 4000 None],
      findings = [],
      calls = [DeleteJobCall ''cloudscan'' ''scan-00000005''],
      drawn = 0\<rparr>"
proof -
  have sel: "Cleaner_scansToClean sample_env sample_cleaner
               (sample_world recent_rows [sample_finding 7 5]) =
             [sample_scan 5 ScanStatusCompleted 8600000 (Some ''scan-00000005'')]"
    by (simp add: Cleaner_scansToClean_def finalStatuses_def ScanRepository_List_def
          list_query_def matches_def limit_offset_def order_by_created_at_desc_def
          ScanFilter0_def AddDate_days_def sample_env_def sample_cleaner_def
          sample_world_def recent_rows_def sample_scan_def
          ScanStatusCompleted_def ScanStatusFailed_def ScanStatusCancelled_def
          ScanStatusQueued_def)
  have cl: "Cleaner_cleanupScan sample_env sample_cleaner
              (sample_scan 5 ScanStatusCompleted 8600000 (Some ''scan-00000005''))
              (sample_world recent_rows [sample_finding 7 5]) =
            (None,
             \<lparr>scans = [sample_scan 5 ScanStatusCancelled 8600000 (Some ''scan-00000005'')
                 \<lparr>UpdatedAt := 8640000\<rparr>,
               sample_scan 6 ScanStatusQueued 4000 None],
              findings = [],
              calls = [DeleteJobCall ''cloudscan'' ''scan-00000005''],
              drawn = 0\<rparr>)"
    by (simp add: Cleaner_cleanupScan_def FindingRepository_DeleteByScanID_def
          ScanRepository_Delete_def JobDispatcher_DeleteJob_def
          StorageClient_DeleteArtifacts_def send_def set_status_def
          sample_env_def sample_cleaner_def sample_world_def recent_rows_def sample_scan_def
          sample_finding_def nonEmpty_def stringValue_def Let_def)
  have "AddDate_days (now sample_env) (- retentionDays sample_cleaner) = 864000"
    by (simp add: AddDate_days_def sample_env_def sample_cleaner_def)
  then show ?thesis
    by (simp add: Cleaner_cleanup_def sel cl)
qed

subsection \<open>Dispatcher: the order of a tick\<close>

lemma calls_Update: "calls (snd (ScanRepository_Update e scan w)) = calls w"
  by (simp add: ScanRepository_Update_def split: option.splits)

lemma calls_dispatchScan:
  "calls (Dispatcher_dispatchScan e scan w) = calls w @ [CreateJobCall scan]"
  by (cases "CreateJob e scan")
     (simp_all add: Dispatcher_dispatchScan_def JobDispatcher_CreateJob_def calls_Update
        send_def)

lemma calls_dispatch_each:
  "calls (for_each (Dispatcher_dispatchScan e) rs w) = calls w @ map CreateJobCall rs"
  by (induction rs arbitrary: w) (simp_all add: calls_dispatchScan)

lemma matches_queued:
  "matches (ScanFilter0\<lparr>flt_Status := Some st\<rparr>) = (\<lambda>r. Status r = st)"
  by (rule ext) (simp add: matches_def ScanFilter0_def)

lemma limit_offset_zero: "limit_offset (ScanFilter0\<lparr>flt_Status := Some st\<rparr>) rs = rs"
  by (simp add: limit_offset_def ScanFilter0_def)

lemma List_by_status:
  assumes "db_fault e (list_query (ScanFilter0\<lparr>flt_Status := Some st\<rparr>)) = None"
  shows "ScanRepository_List e (ScanFilter0\<lparr>flt_Status := Some st\<rparr>) w =
           Inr (order_by_created_at_desc (filter (\<lambda>r. Status r = st) (scans w)))"
  using assms by (simp add: ScanRepository_List_def matches_queued limit_offset_zero)

lemma created_at_descending:
  "sorted (rev (map CreatedAt (order_by_created_at_desc rs)))"
proof -
  have "sorted (map (\<lambda>r. - CreatedAt r) (order_by_created_at_desc rs))"
    by (simp add: order_by_created_at_desc_def)
  then have "sorted_wrt (\<lambda>x y. CreatedAt y \<le> CreatedAt x) (order_by_created_at_desc rs)"
    by (simp add: sorted_map)
  then show ?thesis
    by (simp add: sorted_wrt_rev sorted_wrt_map flip: rev_map)
qed

text \<open>
  C5, as amended. When the listing of queued scans succeeds, the dispatcher tick sends one
  \<open>CreateJob\<close> request per queued scan, in the order of the listing, which is descending
  creation time: the newest queued scan is dispatched first.
\<close>

theorem dispatch_newest_first:
  assumes "db_fault e (list_query (ScanFilter0\<lparr>flt_Status := Some ScanStatusQueued\<rparr>)) = None"
  shows "calls (Dispatcher_dispatch e w) =
           calls w @ map CreateJobCall
             (order_by_created_at_desc
                (filter (\<lambda>r. Status r = ScanStatusQueued) (scans w))) \<and>
         sorted (rev (map CreatedAt
           (order_by_created_at_desc (filter (\<lambda>r. Status r = ScanStatusQueued) (scans w)))))"
  using List_by_status [OF assms, of w] created_at_descending
  by (simp add: Dispatcher_dispatch_def calls_dispatch_each)

lemma sample_queued_order:
  "order_by_created_at_desc
     (filter (\<lambda>r. Status r = ScanStatusQueued) (scans (sample_world queued_rows []))) =
   [sample_scan 9 ScanStatusQueued 5000 None, sample_scan 8 ScanStatusQueued 4000 None]"
  by (simp add: order_by_created_at_desc_def sample_world_def queued_rows_def sample_scan_def)

lemma sample_list_ok:
  "db_fault sample_env (list_query (ScanFilter0\<lparr>flt_Status := Some ScanStatusQueued\<rparr>)) = None"
  by (simp add: sample_env_def)

theorem dispatch_newest_first_witness:
  "calls (Dispatcher_dispatch sample_env (sample_world queued_rows [])) =
     [CreateJobCall (sample_scan 9 ScanStatusQueued 5000 None),
      CreateJobCall (sample_scan 8 ScanStatusQueued 4000 None)] \<and>
   sorted (rev (map CreatedAt
     [sample_scan 9 ScanStatusQueued 5000 None, sample_scan 8 ScanStatusQueued 4000 None]))"
  using dispatch_newest_first [OF sample_list_ok, of "sample_world queued_rows []"]
  by (simp add: sample_queued_order) (simp add: sample_world_def)

text \<open>
  The claim as stated fails: scan 8 was created before scan 9, and the tick asks for the
  job of scan 9 first.
\<close>

theorem dispatch_order_counterexample:
  "CreatedAt (sample_scan 8 ScanStatusQueued 4000 None) <
     CreatedAt (sample_scan 9 ScanStatusQueued 5000 None) \<and>
   calls (Dispatcher_dispatch sample_env (sample_world queued_rows [])) =
     [CreateJobCall (sample_scan 9 ScanStatusQueued 5000 None),
      CreateJobCall (sample_scan 8 ScanStatusQueued 4000 None)]"
proof -
  have "calls (Dispatcher_dispatch sample_env (sample_world queued_rows [])) =
          calls (sample_world queued_rows []) @ map CreateJobCall
            [sample_scan 9 ScanStatusQueued 5000 None, sample_scan 8 ScanStatusQueued 4000 None]"
    using List_by_status [OF sample_list_ok, of "sample_world queued_rows []"]
    by (simp add: Dispatcher_dispatch_def calls_dispatchScan sample_queued_order)
  then show ?thesis
    by (simp add: sample_world_def sample_scan_def)
qed

subsection \<open>Sweeper: the status mapping\<close>

lemma conditionMessage_find:
  "conditionMessage conds =
     (case find (\<lambda>c. cond_Type c = ''Failed'' \<and> cond_Status c = ''True'') conds of
        Some c \<Rightarrow> Some (if Message c = '''' then Reason c else Message c)
      | None \<Rightarrow> None)"
  by (induction conds) simp_all

lemma scans_Update_calls:
  "scans (snd (ScanRepository_Update e scan (w\<lparr>calls := cs\<rparr>))) =
   scans (snd (ScanRepository_Update e scan w))"
  by (simp add: ScanRepository_Update_def split: option.splits)

lemma scans_writeStatus_calls:
  "scans (Sweeper_writeStatus e scan st msg (w\<lparr>calls := cs\<rparr>)) =
   scans (Sweeper_writeStatus e scan st msg w)"
  by (simp add: Sweeper_writeStatus_def Let_def scans_Update_calls)

lemma writeStatus_Completed:
  "Sweeper_writeStatus e scan ScanStatusCompleted None w =
   snd (ScanRepository_Update e
          (scan\<lparr>Status := ScanStatusCompleted, CompletedAt := Some (now e)\<rparr>) w)"
  by (simp add: Sweeper_writeStatus_def)

lemma writeStatus_Failed:
  "Sweeper_writeStatus e scan ScanStatusFailed (Some msg) w =
   snd (ScanRepository_Update e
          (scan\<lparr>Status := ScanStatusFailed, ErrorMessage := Some msg,
                CompletedAt := Some (now e)\<rparr>) w)"
  by (simp add: Sweeper_writeStatus_def)

lemma writeStatus_Running:
  "Sweeper_writeStatus e scan ScanStatusRunning None w =
   snd (ScanRepository_Update e (scan\<lparr>Status := ScanStatusRunning\<rparr>) w)"
  by (simp add: Sweeper_writeStatus_def ScanStatusRunning_def ScanStatusCompleted_def
        ScanStatusFailed_def)

lemma processScan_scans:
  assumes n: "stringValue (JobName scan) \<noteq> ''''"
    and g: "GetJobStatus e (stringValue (JobNamespace scan)) (stringValue (JobName scan)) =
              Inr jobStatus"
  shows "scans (Sweeper_processScan e scan w) =
     (if Succeeded jobStatus > 0 then
        scans (Sweeper_writeStatus e scan ScanStatusCompleted None w)
      else if Failed jobStatus > 0 then
        scans (Sweeper_writeStatus e scan ScanStatusFailed
          (Some (case conditionMessage (Conditions jobStatus) of
                   Some msg \<Rightarrow> msg
                 | None \<Rightarrow>
                     logsMessage (GetJobLogs e (stringValue (JobNamespace scan))
                                    (stringValue (JobName scan))))) w)
      else if Active jobStatus > 0 \<and> Status scan \<noteq> ScanStatusRunning then
        scans (Sweeper_writeStatus e scan ScanStatusRunning None w)
      else scans w)"
  using n g
  by (simp add: Sweeper_processScan_def JobDispatcher_GetJobStatus_def
        JobDispatcher_GetJobLogs_def Let_def scans_writeStatus_calls send_def
        split: option.splits)

lemma error_text:
  "(case conditionMessage conds of Some msg \<Rightarrow> msg | None \<Rightarrow> logsMessage r) =
   (case find (\<lambda>c. cond_Type c = ''Failed'' \<and> cond_Status c = ''True'') conds of
      Some c \<Rightarrow> if Message c = '''' then Reason c else Message c
    | None \<Rightarrow>
        (case r of
           Inr logs \<Rightarrow>
             if logs = '''' then ''Job failed with unknown error''
             else if length logs \<le> 500 then logs
             else ''...'' @ drop (length logs - 500) logs
         | Inl err \<Rightarrow> ''Job failed with unknown error''))"
  by (simp add: conditionMessage_find logsMessage_def split: option.splits sum.splits)

lemma queued_or_running:
  "Status scan = ScanStatusQueued \<or> Status scan = ScanStatusRunning \<Longrightarrow>
   Status scan \<noteq> ScanStatusRunning \<longleftrightarrow> Status scan = ScanStatusQueued"
  by (auto simp: ScanStatusQueued_def ScanStatusRunning_def)

text \<open>
  C6, as amended. For a scan that the sweeper lists (queued or running), that carries a job
  name, and whose job status has been fetched, \<open>processScan\<close> changes the scans table as
  follows. If succeeded is positive, it writes the scan with status completed and
  completed-at the clock. Otherwise, if failed is positive, it writes the scan with status
  failed, completed-at the clock, and the error text: of the first condition whose type is
  "Failed" and whose status is "True", the message, or the reason when the message is
  empty; when there is no such condition, the job's logs if they can be read and are not
  empty, whole when at most 500 bytes long and otherwise "..." followed by their last 500
  bytes; and otherwise "Job failed with unknown error". Otherwise, if active is positive and
  the scan is queued, it writes the scan with status running. In every other case the
  table is as it was.
\<close>

theorem processScan_status_mapping:
  assumes "stringValue (JobName scan) \<noteq> ''''"
    and "GetJobStatus e (stringValue (JobNamespace scan)) (stringValue (JobName scan)) =
           Inr jobStatus"
    and "Status scan = ScanStatusQueued \<or> Status scan = ScanStatusRunning"
  shows "scans (Sweeper_processScan e scan w) =
     (if Succeeded jobStatus > 0 then
        scans (snd (ScanRepository_Update e
          (scan\<lparr>Status := ScanStatusCompleted, CompletedAt := Some (now e)\<rparr>) w))
      else if Failed jobStatus > 0 then
        scans (snd (ScanRepository_Update e
          (scan\<lparr>Status := ScanStatusFailed,
                ErrorMessage := Some
                  (case find (\<lambda>c. cond_Type c = ''Failed'' \<and> cond_Status c = ''True'')
                          (Conditions jobStatus) of
                     Some c \<Rightarrow> if Message c = '''' then Reason c else Message c
                   | None \<Rightarrow>
                       (case GetJobLogs e (stringValue (JobNamespace scan))
                               (stringValue (JobName scan)) of
                          Inr logs \<Rightarrow>
                            if logs = '''' then ''Job failed with unknown error''
                            else if length logs \<le> 500 then logs
                            else ''...'' @ drop (length logs - 500) logs
                        | Inl err \<Rightarrow> ''Job failed with unknown error'')),
                CompletedAt := Some (now e)\<rparr>) w))
      else if Active jobStatus > 0 \<and> Status scan = ScanStatusQueued then
        scans (snd (ScanRepository_Update e (scan\<lparr>Status := ScanStatusRunning\<rparr>) w))
      else scans w)"
  unfolding processScan_scans [OF assms(1,2)] error_text queued_or_running [OF assms(3)]
    writeStatus_Completed writeStatus_Failed writeStatus_Running
  by (rule refl)

lemma sample_GetJobStatus:
  "GetJobStatus sample_env
     (stringValue (JobNamespace (sample_scan 1 ScanStatusRunning 1000 (Some ''scan-00000001''))))
     (stringValue (JobName (sample_scan 1 ScanStatusRunning 1000 (Some ''scan-00000001'')))) =
   Inr sample_status"
  by (simp add: sample_env_def)

theorem processScan_status_mapping_witness:
  "scans (Sweeper_processScan sample_env
            (sample_scan 1 ScanStatusRunning 1000 (Some ''scan-00000001''))
            (sample_world sample_rows [])) =
     [sample_scan 1 ScanStatusFailed 1000 (Some ''scan-00000001'')
        \<lparr>ErrorMessage := Some ''boom'', CompletedAt := Some 8640000, UpdatedAt := 8640000\<rparr>,
      sample_scan 2 ScanStatusCompleted 2000 (Some ''scan-00000002''),
      sample_scan 3 ScanStatusCancelled 3000 None,
      sample_scan 4 ScanStatusQueued 4000 None]"
proof -
  have n: "stringValue (JobName (sample_scan 1 ScanStatusRunning 1000 (Some ''scan-00000001'')))
             \<noteq> ''''"
    by (simp add: sample_scan_def stringValue_def)
  have s: "Status (sample_scan 1 ScanStatusRunning 1000 (Some ''scan-00000001'')) =
             ScanStatusQueued \<or>
           Status (sample_scan 1 ScanStatusRunning 1000 (Some ''scan-00000001'')) =
             ScanStatusRunning"
    by (simp add: sample_scan_def)
  show ?thesis
    unfolding processScan_status_mapping [OF n sample_GetJobStatus s]
    by (simp add: sample_status_def ScanRepository_Update_def updated_row_def
          sample_env_def sample_world_def sample_rows_def sample_scan_def stringValue_def)
qed

text \<open>
  The claim as stated fails: the job has a failed pod, its first condition of type
  "Failed" has the message "m" (and the status "False"), and its log is "boom"; the error
  text stored is neither "m" nor "...boom" but "boom".
\<close>

theorem processScan_error_text_counterexample:
  "Failed sample_status = 1 \<and> Succeeded sample_status = 0 \<and>
   map cond_Type (Conditions sample_status) = [''Failed''] \<and>
   map Message (Conditions sample_status) = [''m''] \<and>
   GetJobLogs sample_env '''' ''scan-00000001'' = Inr ''boom'' \<and>
   map ErrorMessage
     (filter (\<lambda>r. ID r = 1)
        (scans (Sweeper_processScan sample_env
                  (sample_scan 1 ScanStatusRunning 1000 (Some ''scan-00000001''))
                  (sample_world sample_rows [])))) = [Some ''boom'']"
  by (simp add: Sweeper_processScan_def Sweeper_writeStatus_def logsMessage_def
        JobDispatcher_GetJobStatus_def JobDispatcher_GetJobLogs_def send_def
        ScanRepository_Update_def updated_row_def sample_status_def
        sample_env_def sample_world_def sample_rows_def sample_scan_def stringValue_def
        ScanStatusFailed_def ScanStatusCompleted_def Let_def)

subsection \<open>Terminal states\<close>

lemma ID_updated_row: "ID (updated_row t scan r) = ID r"
  by (simp add: updated_row_def)

lemma map_ID_Update: "map ID (scans (snd (ScanRepository_Update e scan w))) = map ID (scans w)"
  by (simp add: ScanRepository_Update_def ID_updated_row split: option.splits)

lemma Update_keeps:
  assumes "ID scan \<noteq> ID r" "r \<in> set (scans w)"
  shows "r \<in> set (scans (snd (ScanRepository_Update e scan w)))"
  using assms by (force simp: ScanRepository_Update_def split: option.splits)

lemma set_status_keeps:
  assumes "sid \<noteq> ID r" "r \<in> set rs"
  shows "r \<in> set (set_status t sid st rs)"
  using assms by (force simp: set_status_def)

text \<open>Under distinct ids, a row is the only one with its id.\<close>

lemma distinct_ID_eq:
  assumes "distinct (map ID rs)" "r \<in> set rs" "s \<in> set rs" "ID s = ID r"
  shows "s = r"
  using assms by (auto simp: distinct_map dest: inj_onD)

lemma only_row:
  assumes "distinct (map ID rs)" "r \<in> set rs"
  shows "filter (\<lambda>x. ID x = ID r) rs = [r]"
  using assms
proof (induction rs)
  case Nil
  then show ?case by simp
next
  case (Cons a rs)
  show ?case
  proof (cases "a = r")
    case True
    with Cons.prems have "ID r \<notin> ID ` set rs" by simp
    then have "\<forall>x\<in>set rs. ID x \<noteq> ID r" by (metis imageI)
    then have "filter (\<lambda>x. ID x = ID r) rs = []" by (simp add: filter_empty_conv)
    with True show ?thesis by simp
  next
    case False
    with Cons.prems have "r \<in> set rs" "distinct (map ID rs)" "ID a \<noteq> ID r" by auto
    with Cons.IH show ?thesis by simp
  qed
qed

lemma kept_row:
  assumes "distinct (map ID (scans w))" "map ID (scans w') = map ID (scans w)"
    and "r \<in> set (scans w')"
  shows "filter (\<lambda>x. ID x = ID r) (scans w') = [r]"
  using only_row [of "scans w'" r] assms by simp

text \<open>A row in a terminal state is neither queued nor running.\<close>

lemma terminal_not_active:
  assumes "IsTerminal r"
  shows "Status r \<noteq> ScanStatusQueued" "Status r \<noteq> ScanStatusRunning"
  using assms
  by (auto simp: IsTerminal_def ScanStatusQueued_def ScanStatusRunning_def
        ScanStatusCompleted_def ScanStatusFailed_def ScanStatusCancelled_def)

subsubsection \<open>Sweeper\<close>

lemma map_ID_writeStatus:
  "map ID (scans (Sweeper_writeStatus e scan st msg w)) = map ID (scans w)"
  by (cases msg) (simp_all add: Sweeper_writeStatus_def Let_def map_ID_Update)

lemma writeStatus_keeps:
  assumes "ID scan \<noteq> ID r" "r \<in> set (scans w)"
  shows "r \<in> set (scans (Sweeper_writeStatus e scan st msg w))"
  using assms by (cases msg) (simp_all add: Sweeper_writeStatus_def Let_def Update_keeps)

lemma scans_send: "scans (send c w) = scans w"
  by (simp add: send_def)

lemma map_ID_processScan:
  "map ID (scans (Sweeper_processScan e scan w)) = map ID (scans w)"
  by (simp add: Sweeper_processScan_def JobDispatcher_GetJobStatus_def
        JobDispatcher_GetJobLogs_def Let_def scans_send map_ID_writeStatus
        split: option.splits sum.splits)

lemma processScan_keeps:
  assumes "ID scan \<noteq> ID r" "r \<in> set (scans w)"
  shows "r \<in> set (scans (Sweeper_processScan e scan w))"
  using assms
  by (simp add: Sweeper_processScan_def JobDispatcher_GetJobStatus_def
        JobDispatcher_GetJobLogs_def Let_def scans_send writeStatus_keeps
        split: option.splits sum.splits)

lemma for_each_keeps:
  assumes "\<And>x v. x \<in> set xs \<Longrightarrow> r \<in> set (scans v) \<Longrightarrow> r \<in> set (scans (body x v))"
    and "r \<in> set (scans w)"
  shows "r \<in> set (scans (for_each body xs w))"
  using assms
proof (induction xs arbitrary: w)
  case Nil
  then show ?case by simp
next
  case (Cons x xs)
  from Cons.prems have "r \<in> set (scans (body x w))" by simp
  with Cons show ?case by simp
qed

lemma for_each_map_ID:
  assumes "\<And>x v. map ID (scans (body x v)) = map ID (scans v)"
  shows "map ID (scans (for_each body xs w)) = map ID (scans w)"
  by (induction xs arbitrary: w) (simp_all add: assms)

lemma listed_other_id:
  assumes d: "distinct (map ID (scans w))" and r: "r \<in> set (scans w)"
    and st: "Status r \<noteq> st"
    and l: "ScanRepository_List e (ScanFilter0\<lparr>flt_Status := Some st\<rparr>) w = Inr rs"
    and s: "s \<in> set rs"
  shows "ID s \<noteq> ID r"
proof
  assume i: "ID s = ID r"
  from List_Status [OF l _ s] have "Status s = st" "s \<in> set (scans w)"
    by simp_all
  with distinct_ID_eq [OF d r _ i] st show False by simp
qed

lemma sweep_keeps:
  assumes d: "distinct (map ID (scans w))" and r: "r \<in> set (scans w)" and t: "IsTerminal r"
  shows "r \<in> set (scans (Sweeper_sweep e w)) \<and>
         map ID (scans (Sweeper_sweep e w)) = map ID (scans w)"
proof (cases "ScanRepository_List e (ScanFilter0\<lparr>flt_Status := Some ScanStatusQueued\<rparr>) w")
  case (Inl err)
  with r show ?thesis by (simp add: Sweeper_sweep_def)
next
  case q: (Inr queuedScans)
  show ?thesis
  proof (cases "ScanRepository_List e (ScanFilter0\<lparr>flt_Status := Some ScanStatusRunning\<rparr>) w")
    case (Inl err)
    with q r show ?thesis by (simp add: Sweeper_sweep_def)
  next
    case (Inr runningScans)
    have other: "ID s \<noteq> ID r" if "s \<in> set (queuedScans @ runningScans)" for s
      using that listed_other_id [OF d r terminal_not_active(1) [OF t] q]
        listed_other_id [OF d r terminal_not_active(2) [OF t] Inr]
      by auto
    have "r \<in> set (scans (for_each (Sweeper_processScan e) (queuedScans @ runningScans) w))"
      using other r by (intro for_each_keeps processScan_keeps)
    moreover have "map ID (scans (for_each (Sweeper_processScan e)
                     (queuedScans @ runningScans) w)) = map ID (scans w)"
      by (rule for_each_map_ID) (rule map_ID_processScan)
    ultimately show ?thesis
      using q Inr by (simp add: Sweeper_sweep_def)
  qed
qed

subsubsection \<open>Dispatcher\<close>

lemma map_ID_dispatchScan:
  "map ID (scans (Dispatcher_dispatchScan e scan w)) = map ID (scans w)"
  by (simp add: Dispatcher_dispatchScan_def JobDispatcher_CreateJob_def map_ID_Update
        scans_send split: sum.splits)

lemma dispatchScan_keeps:
  assumes "ID scan \<noteq> ID r" "r \<in> set (scans w)"
  shows "r \<in> set (scans (Dispatcher_dispatchScan e scan w))"
  using assms
  by (simp add: Dispatcher_dispatchScan_def JobDispatcher_CreateJob_def Update_keeps
        scans_send split: sum.splits)

lemma dispatch_keeps:
  assumes d: "distinct (map ID (scans w))" and r: "r \<in> set (scans w)" and t: "IsTerminal r"
  shows "r \<in> set (scans (Dispatcher_dispatch e w)) \<and>
         map ID (scans (Dispatcher_dispatch e w)) = map ID (scans w)"
proof (cases "ScanRepository_List e (ScanFilter0\<lparr>flt_Status := Some ScanStatusQueued\<rparr>) w")
  case (Inl err)
  with r show ?thesis by (simp add: Dispatcher_dispatch_def)
next
  case (Inr rs)
  have other: "ID s \<noteq> ID r" if "s \<in> set rs" for s
    using that listed_other_id [OF d r terminal_not_active(1) [OF t] Inr] by simp
  have "r \<in> set (scans (for_each (Dispatcher_dispatchScan e) rs w))"
    using other r by (intro for_each_keeps dispatchScan_keeps)
  moreover have "map ID (scans (for_each (Dispatcher_dispatchScan e) rs w)) = map ID (scans w)"
    by (rule for_each_map_ID) (rule map_ID_dispatchScan)
  ultimately show ?thesis
    using Inr r by (simp add: Dispatcher_dispatch_def)
qed

subsubsection \<open>CancelScan\<close>

lemma find_Some_set: "find P xs = Some x \<Longrightarrow> x \<in> set xs \<and> P x"
  by (induction xs) (auto split: if_splits)

lemma CancelScan_scans:
  "scans (snd (ScanServiceServer_CancelScan e req_Id w)) = scans w \<or>
   (\<exists>scan. scan \<in> set (scans w) \<and> \<not> IsTerminal scan \<and>
      scans (snd (ScanServiceServer_CancelScan e req_Id w)) =
        set_status (now e) (ID scan) ScanStatusCancelled (scans w))"
proof (cases "uuid_Parse e req_Id")
  case (Inl err)
  then show ?thesis by (simp add: ScanServiceServer_CancelScan_def)
next
  case p: (Inr sid)
  show ?thesis
  proof (cases "ScanRepository_Get e sid w")
    case (Inl err)
    with p show ?thesis by (simp add: ScanServiceServer_CancelScan_def)
  next
    case (Inr scan)
    then have f: "scan \<in> set (scans w)" "ID scan = sid"
      using find_Some_set [of "\<lambda>r. ID r = sid" "scans w" scan] by (simp_all add: Get_Inr)
    show ?thesis
    proof (cases "IsTerminal scan")
      case True
      with p Inr show ?thesis
        by (auto simp: ScanServiceServer_CancelScan_def IsTerminal_def)
    next
      case False
      then have n: "\<not> (Status scan = ScanStatusCompleted \<or> Status scan = ScanStatusFailed)"
        "Status scan \<noteq> ScanStatusCancelled"
        by (auto simp: IsTerminal_def)
      have "scans (snd (ScanServiceServer_CancelScan e req_Id w)) = scans w \<or>
            scans (snd (ScanServiceServer_CancelScan e req_Id w)) =
              set_status (now e) sid ScanStatusCancelled (scans w)"
        using p Inr n
        by (simp add: ScanServiceServer_CancelScan_def ScanRepository_UpdateStatus_def
              CancelJob_logged scans_send Let_def split: option.splits)
      with f False show ?thesis by blast
    qed
  qed
qed

lemma CancelScan_keeps:
  assumes d: "distinct (map ID (scans w))" and r: "r \<in> set (scans w)" and t: "IsTerminal r"
  shows "r \<in> set (scans (snd (ScanServiceServer_CancelScan e req_Id w))) \<and>
         map ID (scans (snd (ScanServiceServer_CancelScan e req_Id w))) = map ID (scans w)"
  using CancelScan_scans [of e req_Id w]
proof
  assume "scans (snd (ScanServiceServer_CancelScan e req_Id w)) = scans w"
  with r show ?thesis by simp
next
  assume "\<exists>scan. scan \<in> set (scans w) \<and> \<not> IsTerminal scan \<and>
      scans (snd (ScanServiceServer_CancelScan e req_Id w)) =
        set_status (now e) (ID scan) ScanStatusCancelled (scans w)"
  then obtain scan where s: "scan \<in> set (scans w)" "\<not> IsTerminal scan"
    and eq: "scans (snd (ScanServiceServer_CancelScan e req_Id w)) =
               set_status (now e) (ID scan) ScanStatusCancelled (scans w)"
    by blast
  have "ID scan \<noteq> ID r"
    using distinct_ID_eq [OF d r s(1)] s(2) t by auto
  with r eq show ?thesis
    by (simp add: set_status_keeps map_ID_set_status)
qed

subsubsection \<open>A write from a copy with the scan's id\<close>

text \<open>
  \<open>Update\<close> finds its row by id and never reads the stored status: under distinct ids, the
  row with the id of the scan handed in is rewritten from that scan, whatever it held.
\<close>

lemma filter_ID_map_updated:
  "filter (\<lambda>x. ID x = i) (map (\<lambda>x. if ID x = j then updated_row t scan x else x) rs) =
   map (\<lambda>x. if ID x = j then updated_row t scan x else x) (filter (\<lambda>x. ID x = i) rs)"
  by (induction rs) (simp_all add: ID_updated_row)

lemma Update_row:
  assumes d: "distinct (map ID (scans w))" and r: "r \<in> set (scans w)"
    and i: "ID scan = ID r"
  shows "filter (\<lambda>x. ID x = ID r) (scans (snd (ScanRepository_Update e scan w))) =
           [if db_fault e (QUpdate (ID r)) = None then updated_row (now e) scan r else r]"
proof -
  have o: "filter (\<lambda>x. ID x = ID r) (scans w) = [r]"
    using only_row [OF d r] .
  show ?thesis
    by (simp add: ScanRepository_Update_def i o filter_ID_map_updated split: option.splits)
qed

lemma Status_updated_row: "Status (updated_row t scan r) = Status scan"
  by (simp add: updated_row_def)

lemma Update_Status:
  assumes d: "distinct (map ID (scans w))" and r: "r \<in> set (scans w)"
    and i: "ID scan = ID r"
  shows "map Status (filter (\<lambda>x. ID x = ID r) (scans (snd (ScanRepository_Update e scan w)))) =
           [if db_fault e (QUpdate (ID r)) = None then Status scan else Status r]"
  by (simp add: Update_row [OF d r i] Status_updated_row)

lemma dispatchScan_Status:
  assumes d: "distinct (map ID (scans w))" and r: "r \<in> set (scans w)"
    and i: "ID scan = ID r"
  shows "map Status (filter (\<lambda>x. ID x = ID r) (scans (Dispatcher_dispatchScan e scan w))) =
           [if db_fault e (QUpdate (ID r)) = None
            then (case CreateJob e scan of
                    Inl err \<Rightarrow> ScanStatusFailed
                  | Inr job \<Rightarrow> ScanStatusRunning)
            else Status r]"
proof -
  have d1: "distinct (map ID (scans (send c w)))" for c
    using d by (simp add: scans_send)
  have r1: "r \<in> set (scans (send c w))" for c
    using r by (simp add: scans_send)
  show ?thesis
    by (simp add: Dispatcher_dispatchScan_def JobDispatcher_CreateJob_def
          Update_Status [OF d1 r1] i split: sum.splits)
qed

lemma writeStatus_Status:
  assumes d: "distinct (map ID (scans w))" and r: "r \<in> set (scans w)"
    and i: "ID scan = ID r"
  shows "map Status (filter (\<lambda>x. ID x = ID r) (scans (Sweeper_writeStatus e scan st msg w))) =
           [if db_fault e (QUpdate (ID r)) = None then st else Status r]"
  by (cases msg) (simp_all add: Sweeper_writeStatus_def Let_def Update_Status [OF d r] i)

lemma processScan_Status:
  assumes d: "distinct (map ID (scans w))" and r: "r \<in> set (scans w)"
    and i: "ID scan = ID r"
  shows "map Status (filter (\<lambda>x. ID x = ID r) (scans (Sweeper_processScan e scan w))) =
           [if db_fault e (QUpdate (ID r)) = None \<and> stringValue (JobName scan) \<noteq> '''' then
              (case GetJobStatus e (stringValue (JobNamespace scan))
                      (stringValue (JobName scan)) of
                 Inl err \<Rightarrow> Status r
               | Inr jobStatus \<Rightarrow>
                   if Succeeded jobStatus > 0 then ScanStatusCompleted
                   else if Failed jobStatus > 0 then ScanStatusFailed
                   else if Active jobStatus > 0 \<and> Status scan \<noteq> ScanStatusRunning
                     then ScanStatusRunning
                   else Status r)
            else Status r]"
proof (cases "stringValue (JobName scan) = ''''")
  case True
  then show ?thesis
    by (simp add: Sweeper_processScan_def only_row [OF d r])
next
  case n: False
  show ?thesis
  proof (cases "GetJobStatus e (stringValue (JobNamespace scan)) (stringValue (JobName scan))")
    case (Inl err)
    with n show ?thesis
      by (simp add: Sweeper_processScan_def JobDispatcher_GetJobStatus_def Let_def
            scans_send only_row [OF d r])
  next
    case (Inr jobStatus)
    show ?thesis
      unfolding processScan_scans [OF n Inr]
      using n Inr
      by (simp add: writeStatus_Status [OF d r i] only_row [OF d r])
  qed
qed

text \<open>
  The lost update between a dispatcher tick and a \<open>CancelScan\<close> request, on one row: scan 3
  is queued and the tick's listing returns it; the request then cancels the scan; the tick
  goes on with the copy it listed, and the scan is running again.
\<close>

lemma dispatch_after_cancel:
  "ScanRepository_List sample_env (ScanFilter0\<lparr>flt_Status := Some ScanStatusQueued\<rparr>)
     (sample_world [sample_scan 3 ScanStatusQueued 3000 None] []) =
     Inr [sample_scan 3 ScanStatusQueued 3000 None] \<and>
   map Status (scans (snd (ScanServiceServer_CancelScan sample_env ''3''
     (sample_world [sample_scan 3 ScanStatusQueued 3000 None] [])))) = [''cancelled''] \<and>
   map Status (scans (Dispatcher_dispatchScan sample_env (sample_scan 3 ScanStatusQueued 3000 None)
     (snd (ScanServiceServer_CancelScan sample_env ''3''
        (sample_world [sample_scan 3 ScanStatusQueued 3000 None] []))))) = [''running'']"
proof -
  have l: "ScanRepository_List sample_env (ScanFilter0\<lparr>flt_Status := Some ScanStatusQueued\<rparr>)
     (sample_world [sample_scan 3 ScanStatusQueued 3000 None] []) =
     Inr [sample_scan 3 ScanStatusQueued 3000 None]"
    by (simp add: ScanRepository_List_def list_query_def matches_def limit_offset_def
          order_by_created_at_desc_def ScanFilter0_def sample_env_def sample_world_def
          sample_scan_def)
  have c: "scans (snd (ScanServiceServer_CancelScan sample_env ''3''
     (sample_world [sample_scan 3 ScanStatusQueued 3000 None] []))) =
     [sample_scan 3 ScanStatusCancelled 3000 None\<lparr>UpdatedAt := 8640000\<rparr>]"
    by (simp add: ScanServiceServer_CancelScan_def ScanRepository_Get_def
          ScanRepository_UpdateStatus_def JobDispatcher_CancelJob_def send_def set_status_def
          IsTerminal_def nonEmpty_def stringValue_def Let_def sample_env_def sample_world_def
          sample_scan_def ScanStatusQueued_def ScanStatusRunning_def ScanStatusCompleted_def
          ScanStatusFailed_def ScanStatusCancelled_def)
  have s: "map Status (scans (Dispatcher_dispatchScan sample_env
       (sample_scan 3 ScanStatusQueued 3000 None) v)) = [''running'']"
    if "scans v = [sample_scan 3 ScanStatusCancelled 3000 None\<lparr>UpdatedAt := 8640000\<rparr>]" for v
    using that
    by (simp add: Dispatcher_dispatchScan_def JobDispatcher_CreateJob_def
          ScanRepository_Update_def updated_row_def send_def sample_env_def sample_scan_def
          ScanStatusRunning_def)
  from l c s [OF c] show ?thesis
    by (simp add: ScanStatusCancelled_def sample_scan_def)
qed

text \<open>
  C3, as amended. While scan ids are unique in the store, take a scan in a terminal state
  (completed, failed or cancelled).

  \<^item> A sweeper tick, a dispatcher tick and a \<open>CancelScan\<close> request that start on this store
    leave the scan exactly as it is: afterwards the only row under its id is the same row,
    status included.

  \<^item> The per-scan steps \<open>dispatchScan\<close> and \<open>processScan\<close> leave it exactly as it is when the
    copy they are handed has another id.

  \<^item> Handed a copy with the scan's id (one that was listed as queued or running before the
    scan became terminal), the per-scan steps write by id and never read the stored status.
    When the database executes the update, \<open>dispatchScan\<close> leaves the terminal scan with
    status running, or failed when the job could not be created; \<open>processScan\<close>, for a
    copy with a job name whose job status is fetched, leaves it completed when succeeded is
    positive, otherwise failed when failed is positive, otherwise running when active is
    positive and the copy is not running. In every other case the status stays as it was.

  So terminal states are absorbing for the ticks and requests that start after the scan
  became terminal, and not for a per-scan step that is already in flight. (The soft delete of
  \<open>ScanRepository.Delete\<close>, which \<open>DeleteScan\<close> and the cleaner call, changes the status of a
  terminal scan too, as shown after the theorem; \<open>UpdateScan\<close> is not covered.)
\<close>

theorem terminal_scan_and_stale_copies:
  assumes "distinct (map ID (scans w))" and "r \<in> set (scans w)" and "IsTerminal r"
  shows "filter (\<lambda>x. ID x = ID r) (scans (Sweeper_sweep e w)) = [r] \<and>
         filter (\<lambda>x. ID x = ID r) (scans (Dispatcher_dispatch e w)) = [r] \<and>
         filter (\<lambda>x. ID x = ID r) (scans (snd (ScanServiceServer_CancelScan e req_Id w))) = [r] \<and>
         (ID scan \<noteq> ID r \<longrightarrow>
            filter (\<lambda>x. ID x = ID r) (scans (Dispatcher_dispatchScan e scan w)) = [r] \<and>
            filter (\<lambda>x. ID x = ID r) (scans (Sweeper_processScan e scan w)) = [r]) \<and>
         (ID scan = ID r \<longrightarrow>
            map Status (filter (\<lambda>x. ID x = ID r) (scans (Dispatcher_dispatchScan e scan w))) =
              [if db_fault e (QUpdate (ID r)) = None
               then (case CreateJob e scan of
                       Inl err \<Rightarrow> ScanStatusFailed
                     | Inr job \<Rightarrow> ScanStatusRunning)
               else Status r] \<and>
            map Status (filter (\<lambda>x. ID x = ID r) (scans (Sweeper_processScan e scan w))) =
              [if db_fault e (QUpdate (ID r)) = None \<and> stringValue (JobName scan) \<noteq> '''' then
                 (case GetJobStatus e (stringValue (JobNamespace scan))
                         (stringValue (JobName scan)) of
                    Inl err \<Rightarrow> Status r
                  | Inr jobStatus \<Rightarrow>
                      if Succeeded jobStatus > 0 then ScanStatusCompleted
                      else if Failed jobStatus > 0 then ScanStatusFailed
                      else if Active jobStatus > 0 \<and> Status scan \<noteq> ScanStatusRunning
                        then ScanStatusRunning
                      else Status r)
               else Status r])"
proof -
  have ticks:
    "filter (\<lambda>x. ID x = ID r) (scans (Sweeper_sweep e w)) = [r]"
    "filter (\<lambda>x. ID x = ID r) (scans (Dispatcher_dispatch e w)) = [r]"
    "filter (\<lambda>x. ID x = ID r) (scans (snd (ScanServiceServer_CancelScan e req_Id w))) = [r]"
    using sweep_keeps [OF assms, of e] dispatch_keeps [OF assms, of e]
      CancelScan_keeps [OF assms, of e req_Id] assms(1)
    by (simp_all add: kept_row)
  have other:
    "filter (\<lambda>x. ID x = ID r) (scans (Dispatcher_dispatchScan e scan w)) = [r]"
    "filter (\<lambda>x. ID x = ID r) (scans (Sweeper_processScan e scan w)) = [r]"
    if "ID scan \<noteq> ID r"
    using dispatchScan_keeps [OF that assms(2), of e] processScan_keeps [OF that assms(2), of e]
      assms(1)
    by (simp_all add: kept_row map_ID_dispatchScan map_ID_processScan)
  from ticks other dispatchScan_Status [OF assms(1,2), of scan e]
    processScan_Status [OF assms(1,2), of scan e]
  show ?thesis by blast
qed

theorem terminal_scan_and_stale_copies_witness:
  "filter (\<lambda>x. ID x = 2) (scans (Sweeper_sweep sample_env (sample_world sample_rows []))) =
     [sample_scan 2 ScanStatusCompleted 2000 (Some ''scan-00000002'')] \<and>
   filter (\<lambda>x. ID x = 2) (scans (Dispatcher_dispatch sample_env (sample_world sample_rows []))) =
     [sample_scan 2 ScanStatusCompleted 2000 (Some ''scan-00000002'')] \<and>
   filter (\<lambda>x. ID x = 2)
     (scans (snd (ScanServiceServer_CancelScan sample_env ''1'' (sample_world sample_rows [])))) =
     [sample_scan 2 ScanStatusCompleted 2000 (Some ''scan-00000002'')] \<and>
   filter (\<lambda>x. ID x = 2)
     (scans (Dispatcher_dispatchScan sample_env (sample_scan 4 ScanStatusQueued 4000 None)
               (sample_world sample_rows []))) =
     [sample_scan 2 ScanStatusCompleted 2000 (Some ''scan-00000002'')] \<and>
   filter (\<lambda>x. ID x = 2)
     (scans (Sweeper_processScan sample_env (sample_scan 4 ScanStatusQueued 4000 None)
               (sample_world sample_rows []))) =
     [sample_scan 2 ScanStatusCompleted 2000 (Some ''scan-00000002'')] \<and>
   sample_scan 3 ScanStatusCancelled 3000 None \<in> set (scans (sample_world sample_rows [])) \<and>
   map Status (filter (\<lambda>x. ID x = 3)
     (scans (Dispatcher_dispatchScan sample_env (sample_scan 3 ScanStatusQueued 3000 None)
               (sample_world sample_rows [])))) = [ScanStatusRunning] \<and>
   map Status (filter (\<lambda>x. ID x = 3)
     (scans (Sweeper_processScan sample_env
               (sample_scan 3 ScanStatusRunning 3000 (Some ''scan-00000003''))
               (sample_world sample_rows [])))) = [ScanStatusFailed]"
proof -
  let ?w = "sample_world sample_rows []"
  let ?done = "sample_scan 2 ScanStatusCompleted 2000 (Some ''scan-00000002'')"
  let ?gone = "sample_scan 3 ScanStatusCancelled 3000 None"
  let ?other = "sample_scan 4 ScanStatusQueued 4000 None"
  let ?queued = "sample_scan 3 ScanStatusQueued 3000 None"
  let ?running = "sample_scan 3 ScanStatusRunning 3000 (Some ''scan-00000003'')"
  have d: "distinct (map ID (scans ?w))"
    by (simp add: sample_world_def sample_rows_def sample_scan_def)
  have r2: "?done \<in> set (scans ?w)" and r3: "?gone \<in> set (scans ?w)"
    by (simp_all add: sample_world_def sample_rows_def)
  have t2: "IsTerminal ?done" and t3: "IsTerminal ?gone"
    by (simp_all add: IsTerminal_def sample_scan_def)
  have i2: "ID ?done = 2" and i3: "ID ?gone = 3"
    by (simp_all add: sample_scan_def)
  have o: "ID ?other \<noteq> ID ?done" and q: "ID ?queued = ID ?gone" and u: "ID ?running = ID ?gone"
    by (simp_all add: sample_scan_def)
  have fq: "(if db_fault sample_env (QUpdate (ID ?gone)) = None
             then (case CreateJob sample_env ?queued of
                     Inl err \<Rightarrow> ScanStatusFailed
                   | Inr job \<Rightarrow> ScanStatusRunning)
             else Status ?gone) = ScanStatusRunning"
    by (simp add: sample_env_def)
  have fu: "(if db_fault sample_env (QUpdate (ID ?gone)) = None \<and>
                stringValue (JobName ?running) \<noteq> '''' then
               (case GetJobStatus sample_env (stringValue (JobNamespace ?running))
                       (stringValue (JobName ?running)) of
                  Inl err \<Rightarrow> Status ?gone
                | Inr jobStatus \<Rightarrow>
                    if Succeeded jobStatus > 0 then ScanStatusCompleted
                    else if Failed jobStatus > 0 then ScanStatusFailed
                    else if Active jobStatus > 0 \<and> Status ?running \<noteq> ScanStatusRunning
                      then ScanStatusRunning
                    else Status ?gone)
             else Status ?gone) = ScanStatusFailed"
    by (simp add: sample_env_def sample_status_def sample_scan_def stringValue_def)
  note A = terminal_scan_and_stale_copies
      [OF d r2 t2, where e = sample_env and req_Id = "''1''" and scan = ?other]
  note B = terminal_scan_and_stale_copies
      [OF d r3 t3, where e = sample_env and req_Id = "''1''" and scan = ?queued]
  note C = terminal_scan_and_stale_copies
      [OF d r3 t3, where e = sample_env and req_Id = "''1''" and scan = ?running]
  note sweep = A [THEN conjunct1, unfolded i2]
  note dispatch = A [THEN conjunct2, THEN conjunct1, unfolded i2]
  note cancel = A [THEN conjunct2, THEN conjunct2, THEN conjunct1, unfolded i2]
  note other = A [THEN conjunct2, THEN conjunct2, THEN conjunct2, THEN conjunct1, THEN mp,
      OF o, unfolded i2]
  note queued = B [THEN conjunct2, THEN conjunct2, THEN conjunct2, THEN conjunct2, THEN mp,
      OF q, THEN conjunct1, unfolded fq, unfolded i3]
  note running = C [THEN conjunct2, THEN conjunct2, THEN conjunct2, THEN conjunct2, THEN mp,
      OF u, THEN conjunct2, unfolded fu, unfolded i3]
  from sweep dispatch cancel other r3 queued running show ?thesis
    by (intro conjI) (erule conjunct1 conjunct2 | assumption)+
qed

text \<open>
  The claim as stated fails: scan 2 is completed; \<open>ScanRepository.Delete\<close> turns its status
  to cancelled, and so does a cleaner cycle, which selects it as an old terminal scan.
\<close>

theorem terminal_scan_moved_counterexample:
  "Status (sample_scan 2 ScanStatusCompleted 2000 (Some ''scan-00000002'')) = ''completed'' \<and>
   map Status (filter (\<lambda>x. ID x = 2)
     (scans (snd (ScanRepository_Delete sample_env 2 (sample_world sample_rows []))))) =
     [''cancelled''] \<and>
   map Status (filter (\<lambda>x. ID x = 2)
     (scans (Cleaner_cleanup sample_env sample_cleaner (sample_world sample_rows [])))) =
     [''cancelled'']"
proof -
  have a: "map Status (filter (\<lambda>x. ID x = 2)
     (scans (snd (ScanRepository_Delete sample_env 2 (sample_world sample_rows []))))) =
     [''cancelled'']"
    by (simp add: ScanRepository_Delete_def set_status_def sample_env_def sample_world_def
          sample_rows_def sample_scan_def ScanStatusCancelled_def)
  have sel: "Cleaner_scansToClean sample_env sample_cleaner (sample_world sample_rows []) =
      [sample_scan 2 ScanStatusCompleted 2000 (Some ''scan-00000002''),
       sample_scan 3 ScanStatusCancelled 3000 None]"
    by (simp add: Cleaner_scansToClean_def finalStatuses_def ScanRepository_List_def
          list_query_def matches_def limit_offset_def order_by_created_at_desc_def
          ScanFilter0_def AddDate_days_def sample_env_def sample_cleaner_def
          sample_world_def sample_rows_def sample_scan_def
          ScanStatusCompleted_def ScanStatusFailed_def ScanStatusCancelled_def
          ScanStatusQueued_def ScanStatusRunning_def)
  have b: "map Status (filter (\<lambda>x. ID x = 2)
     (scans (Cleaner_cleanup sample_env sample_cleaner (sample_world sample_rows [])))) =
     [''cancelled'']"
    unfolding Cleaner_cleanup_def sel
    by (simp add: Cleaner_cleanupScan_def FindingRepository_DeleteByScanID_def
          ScanRepository_Delete_def JobDispatcher_DeleteJob_def
          StorageClient_DeleteArtifacts_def send_def set_status_def
          sample_env_def sample_cleaner_def sample_world_def sample_rows_def sample_scan_def
          nonEmpty_def stringValue_def Let_def ScanStatusCancelled_def)
  from a b show ?thesis
    by (simp add: sample_scan_def ScanStatusCompleted_def)
qed

end
